theory Spec2Isabelle
  imports Main "HOL-Library.AList"
begin

section \<open>The report generator of IoT-Traffic-Analysis\<close>

text \<open>
  A shallow embedding of \<^verbatim>\<open>src/reports/generate_report.py\<close>: a linear batch job that
  loads a CSV of captured MQTT traffic, renders five figures and assembles them with
  fixed narrative text into one PDF. The table, the PDF object, the working directory
  and the console are the components of one explicit state; every Python exception is a
  value; each \<^verbatim>\<open>try/except\<close> of the source is an application of \<open>catch\<close>.
\<close>

subsection \<open>Configuration and narrative text\<close>

definition CSV_FILE :: string where
  "CSV_FILE = ''mqtt_captured_data.csv''"

definition OUTPUT_PDF :: string where
  "OUTPUT_PDF = ''Professional_Report.pdf''"

text \<open>The entries of the dictionary \<^verbatim>\<open>TEXT_SECTIONS\<close>, one constant per key.\<close>

definition header :: string where
  \<open>header = ''TECHNICAL REPORT: Large-Scale Public IoT Traffic Analysis''\<close>

definition author :: string where
  \<open>author = ''Author: Emad Karimian Shamsabadi | Date: December 2025''\<close>

definition sec1_title :: string where
  \<open>sec1_title = ''1. Executive Summary''\<close>

definition sec1_body :: string where
  \<open>sec1_body = ''This report details a large-scale analysis of the public IoT ecosystem. Leveraging a custom multi-threaded Python ingestion engine, we monitored global traffic across Europe and Asia.\<newline>Key Achievement: Successfully captured and analyzed 286,253 real-time messages in a 30-minute window. The study uncovers a distinct preference for speed over reliability (100% QoS 0 usage) and identifies significant infrastructure variances between major brokers like HiveMQ and Mosquitto.''\<close>

definition sec2_title :: string where
  \<open>sec2_title = ''2. Data Acquisition Architecture''\<close>

definition sec2_body :: string where
  \<open>sec2_body = ''To ensure data integrity, we developed a Python logger using 'paho-mqtt'. The system handled concurrent connections to 6 global brokers (HiveMQ, EMQX, Mosquitto, etc.) simultaneously.\<newline>Strategy: We utilized the 'root/#' wildcard to capture the entire topic tree.\<newline>Concurrency: Implemented threading to prevent blocking during high-throughput bursts.''\<close>

definition sec3_title :: string where
  \<open>sec3_title = ''3. Infrastructure Performance Analysis''\<close>

definition sec3_body :: string where
  \<open>sec3_body = ''Benchmarking revealed massive disparities. HiveMQ emerged as the top performer (~104k messages).\<newline>Critical Finding: Mosquitto showed significantly lower traffic (~26k) due to strict ACLs blocking anonymous wildcard subscribers. EmqxCN proved to be a high-traffic source.''\<close>

definition sec4_title :: string where
  \<open>sec4_title = ''4. Payload & Protocol Insights''\<close>

definition sec4_body :: string where
  \<open>sec4_body = ''Format Standardization: JSON dominates (67% of traffic), confirming it as the standard for interoperability. HiveMQ shows high 'Numeric' traffic due to educational usage.\<newline>Reliability vs. Speed: 100% of traffic used QoS 0. Only 5.8% of messages were 'Retained', proving public IoT data is ephemeral.''\<close>

definition sec5_title :: string where
  \<open>sec5_title = ''5. Temporal Traffic Behavior''\<close>

definition sec5_body :: string where
  \<open>sec5_body = ''A 24-hour analysis revealed a massive synchronization spike at 23:00 (~95k messages), driven by a fleet of trackers performing batch updates (device/status).''\<close>

definition sec6_title :: string where
  \<open>sec6_title = ''6. Conclusion''\<close>

definition sec6_body :: string where
  \<open>sec6_body = ''The project bridged theoretical networking with real-world engineering. Results prove the public IoT ecosystem is a high-velocity, JSON-dominated environment prioritizing speed ('Fire and Forget') over security.''\<close>

subsection \<open>Tables\<close>

text \<open>
  A pandas DataFrame is column oriented: an ordered dictionary from column names to
  series. The cells of a series are strings, integers, booleans or the missing value.
\<close>

datatype cell = CStr string | CInt int | CBool bool | CNaN

type_synonym series = "cell list"

type_synonym dataframe = "(string \<times> series) list"

datatype exn = KeyError string | ValueError string | OtherError string

definition notna :: "cell \<Rightarrow> bool" where
  "notna c = (c \<noteq> CNaN)"

text \<open>\<^verbatim>\<open>df[k]\<close> raises \<^verbatim>\<open>KeyError\<close> on an absent column.\<close>

definition getitem :: "dataframe \<Rightarrow> string \<Rightarrow> exn + series" where
  "getitem df k = (case map_of df k of None \<Rightarrow> Inl (KeyError k) | Some col \<Rightarrow> Inr col)"

text \<open>
  seaborn looks a column name up in \<^verbatim>\<open>data\<close> itself and raises
  \<^verbatim>\<open>ValueError\<close> when no column has that name.
\<close>

definition plot_variable :: "dataframe \<Rightarrow> string \<Rightarrow> exn + series" where
  "plot_variable df k = (case map_of df k of None \<Rightarrow> Inl (ValueError k) | Some col \<Rightarrow> Inr col)"

text \<open>\<^verbatim>\<open>df[k] = col\<close>: replaces the column in place, or appends a new one.\<close>

definition setitem :: "dataframe \<Rightarrow> string \<Rightarrow> series \<Rightarrow> dataframe" where
  "setitem df k col = AList.update k col df"

text \<open>The distinct values of a series in order of first appearance.\<close>

definition uniq :: "'a list \<Rightarrow> 'a list" where
  "uniq xs = rev (remdups (rev xs))"

text \<open>
  \<^verbatim>\<open>Series.value_counts()\<close>: one entry per distinct non-missing value with its number
  of occurrences, by descending count (a stable sort of the first-appearance order).
\<close>

definition value_counts :: "series \<Rightarrow> (cell \<times> nat) list" where
  "value_counts xs =
     sort_key (\<lambda>p. - int (snd p)) (map (\<lambda>v. (v, count_list xs v)) (uniq (filter notna xs)))"

text \<open>
  The category order seaborn chooses when none is given: the distinct non-missing
  values in order of appearance, sorted when they are numbers.
\<close>

fun is_int :: "cell \<Rightarrow> bool" where
  "is_int (CInt i) = True"
| "is_int c = False"

fun int_of :: "cell \<Rightarrow> int" where
  "int_of (CInt i) = i"
| "int_of c = 0"

definition categorical_order :: "series \<Rightarrow> cell list" where
  "categorical_order col =
     (let u = uniq (filter notna col)
      in if list_all is_int u then sort_key int_of u else u)"

text \<open>\<^verbatim>\<open>sns.countplot\<close>: one bar per category of \<open>order\<close>, as high as its number of rows.\<close>

definition countplot :: "series \<Rightarrow> cell list \<Rightarrow> (cell \<times> nat) list" where
  "countplot col order = map (\<lambda>v. (v, count_list col v)) order"

text \<open>\<^verbatim>\<open>sns.countplot\<close> with \<^verbatim>\<open>hue\<close>: per category, one bar per hue level.\<close>

definition countplot_hue :: "series \<Rightarrow> series \<Rightarrow> (cell \<times> (cell \<times> nat) list) list" where
  "countplot_hue xs hs =
     map (\<lambda>b. (b, map (\<lambda>h. (h, count_list (zip xs hs) (b, h))) (categorical_order hs)))
       (categorical_order xs)"

text \<open>
  \<^verbatim>\<open>Axes.pie(x, labels=...)\<close> raises \<^verbatim>\<open>ValueError\<close> unless there is exactly one label
  per wedge; otherwise the i-th label names the i-th value.
\<close>

definition pie :: "nat list \<Rightarrow> string list \<Rightarrow> exn + (string \<times> nat) list" where
  "pie x labels =
     (if length x \<noteq> length labels then Inl (ValueError ''label must be of length x'')
      else Inr (zip labels x))"

subsection \<open>Hour extraction\<close>

text \<open>
  \<^verbatim>\<open>pd.to_datetime(col, format='%H:%M:%S', errors='coerce').dt.hour\<close>. The whole value
  has to match the format: three fields of one or two decimal digits separated by
  colons, the hour at most 23, minute and second at most 59. A value that does not match
  becomes the missing value instead of raising (\<^verbatim>\<open>errors='coerce'\<close>). The library's
  pattern also admits the leap-second spellings 60 and 61 of the seconds field; nothing
  below depends on how such a value is treated, and this model counts it as not matching.
\<close>

definition digit_value :: "char \<Rightarrow> nat option" where
  "digit_value c =
     (let n = (of_char c :: nat) in if 48 \<le> n \<and> n \<le> 57 then Some (n - 48) else None)"

fun field_value :: "string \<Rightarrow> nat option" where
  "field_value [a] = digit_value a"
| "field_value [a, b] =
     (case digit_value a of None \<Rightarrow> None
      | Some x \<Rightarrow> (case digit_value b of None \<Rightarrow> None | Some y \<Rightarrow> Some (10 * x + y)))"
| "field_value s = None"

fun split_on :: "char \<Rightarrow> string \<Rightarrow> string list" where
  "split_on c [] = [[]]"
| "split_on c (x # xs) =
     (if x = c then [] # split_on c xs
      else (case split_on c xs of [] \<Rightarrow> [[x]] | w # ws \<Rightarrow> (x # w) # ws))"

definition strptime_HMS :: "string \<Rightarrow> (nat \<times> nat \<times> nat) option" where
  "strptime_HMS s =
     (case split_on (CHR '':'') s of
        [h, m, sec] \<Rightarrow>
          (case field_value h of None \<Rightarrow> None
           | Some hh \<Rightarrow>
          (case field_value m of None \<Rightarrow> None
           | Some mm \<Rightarrow>
          (case field_value sec of None \<Rightarrow> None
           | Some ss \<Rightarrow> if hh \<le> 23 \<and> mm \<le> 59 \<and> ss \<le> 59 then Some (hh, mm, ss) else None)))
      | _ \<Rightarrow> None)"

fun to_hour :: "cell \<Rightarrow> cell" where
  "to_hour (CStr s) = (case strptime_HMS s of None \<Rightarrow> CNaN | Some (hh, mm, ss) \<Rightarrow> CInt (int hh))"
| "to_hour c = CNaN"

text \<open>
  \<^verbatim>\<open>df.dropna(subset=[k])\<close>: a new table with the rows whose cell in column \<open>k\<close> is
  present; \<^verbatim>\<open>df.empty\<close> holds of a table of no rows.
\<close>

definition keep_rows :: "series \<Rightarrow> series \<Rightarrow> series" where
  "keep_rows ks col = map snd (filter (\<lambda>p. notna (fst p)) (zip ks col))"

definition dropna :: "dataframe \<Rightarrow> string \<Rightarrow> dataframe" where
  "dropna df k =
     (case map_of df k of None \<Rightarrow> df
      | Some ks \<Rightarrow> map (\<lambda>p. (fst p, keep_rows ks (snd p))) df)"

definition empty_frame :: "dataframe \<Rightarrow> bool" where
  "empty_frame df = list_all (\<lambda>p. snd p = []) df"

subsection \<open>State, exceptions and handlers\<close>

text \<open>
  What a figure file holds is the data it plots; what the PDF holds is the sequence of
  cells and pictures written to it (fonts, colours and vertical spacing are left out).
\<close>

datatype chart =
    CodeFigure
  | BrokerBars "(cell \<times> nat) list"
  | PayloadBars "(cell \<times> (cell \<times> nat) list) list"
  | QosRetain "(cell \<times> nat) list" "(string \<times> nat) list"
  | HourHist "int list"

datatype element =
    NewPage
  | HeaderCell string
  | TitleCell string
  | BodyText string
  | Picture string nat

datatype content = Tabular dataframe | Garbled | Chart chart | Pdf "element list"

text \<open>The lines the script prints.\<close>

datatype msg =
    LoadingData
  | GeneratingCharts
  | BuildingPDF
  | ErrorProcessingData exn
  | CsvNotFound string
  | WarnSkipFigure5
  | WarnTimeChart exn
  | ErrorAddingImage string exn
  | ImageNotFound string
  | Success string
  | UploadHint
  | ErrorSavingPDF exn

text \<open>
  The environment decides what the script cannot: whether the plotting library fails
  while drawing or saving a figure, whether the PDF library fails to embed a picture,
  and whether writing the PDF fails. A failed save or write leaves no file.
\<close>

record env =
  render_fault :: "string \<Rightarrow> exn option"
  embed_fault :: "string \<Rightarrow> exn option"
  output_fault :: "string \<Rightarrow> exn option"

record state =
  table :: dataframe
  pdf :: "element list"
  disk :: "string \<rightharpoonup> content"
  console :: "msg list"

text \<open>A statement either completes or raises; either way it leaves a state behind.\<close>

type_synonym step = "state \<Rightarrow> exn option \<times> state"

definition seq :: "step \<Rightarrow> step \<Rightarrow> step" where
  "seq f g s = (case f s of (None, s') \<Rightarrow> g s' | (Some e, s') \<Rightarrow> (Some e, s'))"

definition catch :: "step \<Rightarrow> (exn \<Rightarrow> step) \<Rightarrow> step" where
  "catch f h s = (case f s of (None, s') \<Rightarrow> (None, s') | (Some e, s') \<Rightarrow> h e s')"

definition print :: "msg \<Rightarrow> step" where
  "print m s = (None, s\<lparr>console := console s @ [m]\<rparr>)"

definition raise :: "exn \<Rightarrow> step" where
  "raise e s = (Some e, s)"

definition exists :: "state \<Rightarrow> string \<Rightarrow> bool" where
  "exists s path = (disk s path \<noteq> None)"

subsection \<open>Image generation\<close>

text \<open>\<^verbatim>\<open>plt.savefig(path)\<close> of a figure showing \<open>c\<close>.\<close>

definition savefig :: "env \<Rightarrow> string \<Rightarrow> chart \<Rightarrow> step" where
  "savefig env path c s =
     (case render_fault env path of
        Some e \<Rightarrow> (Some e, s)
      | None \<Rightarrow> (None, s\<lparr>disk := (disk s)(path \<mapsto> Chart c)\<rparr>))"

text \<open>1. Code snippet simulation.\<close>

definition figure1 :: "env \<Rightarrow> step" where
  "figure1 env = savefig env ''fig1_code.png'' CodeFigure"

text \<open>2. Broker traffic.\<close>

definition figure2 :: "env \<Rightarrow> step" where
  "figure2 env s =
     (case getitem (table s) ''broker'' of
        Inl e \<Rightarrow> raise e s
      | Inr col \<Rightarrow>
          (let order = map fst (value_counts col)
           in savefig env ''fig2_broker.png'' (BrokerBars (countplot col order)) s))"

text \<open>3. Payload type.\<close>

definition figure3 :: "env \<Rightarrow> step" where
  "figure3 env s =
     (case plot_variable (table s) ''broker'' of
        Inl e \<Rightarrow> raise e s
      | Inr xs \<Rightarrow>
     (case plot_variable (table s) ''payload_type'' of
        Inl e \<Rightarrow> raise e s
      | Inr hs \<Rightarrow> savefig env ''fig3_payload.png'' (PayloadBars (countplot_hue xs hs)) s))"

text \<open>4. QoS and retention.\<close>

definition figure4 :: "env \<Rightarrow> step" where
  "figure4 env s =
     (case plot_variable (table s) ''qos'' of
        Inl e \<Rightarrow> raise e s
      | Inr qs \<Rightarrow>
     (case getitem (table s) ''retain'' of
        Inl e \<Rightarrow> raise e s
      | Inr rs \<Rightarrow>
          (let retain_counts = value_counts rs
           in (case pie (map snd retain_counts) [''Not Retained'', ''Retained''] of
                 Inl e \<Rightarrow> raise e s
               | Inr wedges \<Rightarrow>
                   savefig env ''fig4_qos.png''
                     (QosRetain (countplot qs (categorical_order qs)) wedges) s))))"

text \<open>5. Temporal spike: the body of the \<^verbatim>\<open>try\<close>, then the statement with its handler.\<close>

definition hours :: "series \<Rightarrow> int list" where
  "hours col = map int_of (filter notna col)"

definition figure5_try :: "env \<Rightarrow> step" where
  "figure5_try env s =
     (case getitem (table s) ''timestamp'' of
        Inl e \<Rightarrow> raise e s
      | Inr ts \<Rightarrow>
          (let s1 = s\<lparr>table := setitem (table s) ''hour'' (map to_hour ts)\<rparr>;
               df_time = dropna (table s1) ''hour''
           in if \<not> empty_frame df_time
              then (case getitem df_time ''hour'' of
                      Inl e \<Rightarrow> raise e s1
                    | Inr hs \<Rightarrow> savefig env ''fig5_time.png'' (HourHist (hours hs)) s1)
              else print WarnSkipFigure5 s1))"

definition figure5 :: "env \<Rightarrow> step" where
  "figure5 env = catch (figure5_try env) (\<lambda>e. print (WarnTimeChart e))"

definition generate_charts :: "env \<Rightarrow> step" where
  "generate_charts env =
     seq (figure1 env) (seq (figure2 env) (seq (figure3 env) (seq (figure4 env) (figure5 env))))"

subsection \<open>PDF generation\<close>

text \<open>\<^verbatim>\<open>add_page\<close> starts a page and calls \<^verbatim>\<open>header\<close>, which writes two cells.\<close>

definition add_page :: step where
  "add_page s = (None, s\<lparr>pdf := pdf s @ [NewPage, HeaderCell header, HeaderCell author]\<rparr>)"

definition chapter_title :: "string \<Rightarrow> step" where
  "chapter_title title s = (None, s\<lparr>pdf := pdf s @ [TitleCell title]\<rparr>)"

definition chapter_body :: "string \<Rightarrow> step" where
  "chapter_body body s = (None, s\<lparr>pdf := pdf s @ [BodyText body]\<rparr>)"

definition pdf_image :: "env \<Rightarrow> string \<Rightarrow> nat \<Rightarrow> step" where
  "pdf_image env path w s =
     (case embed_fault env path of
        Some e \<Rightarrow> (Some e, s)
      | None \<Rightarrow> (None, s\<lparr>pdf := pdf s @ [Picture path w]\<rparr>))"

definition add_image_safe :: "env \<Rightarrow> string \<Rightarrow> step" where
  "add_image_safe env image_path s =
     (if exists s image_path
      then catch (pdf_image env image_path 170) (\<lambda>e. print (ErrorAddingImage image_path e)) s
      else print (ImageNotFound image_path) s)"

text \<open>The statements of \<^verbatim>\<open>create_pdf\<close> before the final \<^verbatim>\<open>try\<close>.\<close>

definition assemble :: "env \<Rightarrow> step" where
  "assemble env =
     seq (\<lambda>s. (None, s\<lparr>pdf := []\<rparr>))
    (seq add_page
    (seq (chapter_title sec1_title)
    (seq (chapter_body sec1_body)
    (seq (chapter_title sec2_title)
    (seq (chapter_body sec2_body)
    (seq (add_image_safe env ''fig1_code.png'')
    (seq (chapter_title sec3_title)
    (seq (chapter_body sec3_body)
    (seq (add_image_safe env ''fig2_broker.png'')
    (seq add_page
    (seq (chapter_title sec4_title)
    (seq (chapter_body sec4_body)
    (seq (add_image_safe env ''fig3_payload.png'')
    (seq (add_image_safe env ''fig4_qos.png'')
    (seq (chapter_title sec5_title)
    (seq (chapter_body sec5_body)
    (seq (add_image_safe env ''fig5_time.png'')
    (seq (chapter_title sec6_title)
         (chapter_body sec6_body)))))))))))))))))))"

definition pdf_output :: "env \<Rightarrow> string \<Rightarrow> step" where
  "pdf_output env path s =
     (case output_fault env path of
        Some e \<Rightarrow> (Some e, s)
      | None \<Rightarrow> (None, s\<lparr>disk := (disk s)(path \<mapsto> Pdf (pdf s))\<rparr>))"

definition create_pdf :: "env \<Rightarrow> step" where
  "create_pdf env =
     seq (assemble env)
       (catch (seq (pdf_output env OUTPUT_PDF) (seq (print (Success OUTPUT_PDF)) (print UploadHint)))
          (\<lambda>e. print (ErrorSavingPDF e)))"

subsection \<open>Main execution\<close>

text \<open>\<^verbatim>\<open>pd.read_csv\<close> yields the table of a tabular file and raises on any other.\<close>

definition read_csv :: "string \<Rightarrow> step" where
  "read_csv path s =
     (case disk s path of
        Some (Tabular df) \<Rightarrow> (None, s\<lparr>table := df\<rparr>)
      | _ \<Rightarrow> (Some (OtherError path), s))"

definition main :: "env \<Rightarrow> step" where
  "main env s =
     (if exists s CSV_FILE
      then seq (print LoadingData)
             (catch
                (seq (read_csv CSV_FILE)
                (seq (print GeneratingCharts)
                (seq (generate_charts env)
                (seq (print BuildingPDF)
                     (create_pdf env)))))
                (\<lambda>e. print (ErrorProcessingData e))) s
      else print (CsvNotFound CSV_FILE) s)"

text \<open>The state of a fresh process started in the directory \<open>d\<close>.\<close>

definition start :: "(string \<rightharpoonup> content) \<Rightarrow> state" where
  "start d = \<lparr>table = [], pdf = [], disk = d, console = []\<rparr>"

subsection \<open>Example inputs\<close>

text \<open>An environment in which no library call fails.\<close>

definition quiet :: env where
  "quiet = \<lparr>render_fault = (\<lambda>p. None), embed_fault = (\<lambda>p. None), output_fault = (\<lambda>p. None)\<rparr>"

text \<open>The three-row table of the end-to-end scenario.\<close>

definition example_table :: dataframe where
  "example_table =
     [(''broker'', [CStr ''A'', CStr ''A'', CStr ''B'']),
      (''qos'', [CInt 0, CInt 0, CInt 0]),
      (''retain'', [CBool False, CBool True, CBool False]),
      (''payload_type'', [CStr ''JSON'', CStr ''Numeric'', CStr ''JSON'']),
      (''timestamp'', [CStr ''10:00:00'', CStr ''10:05:00'', CStr ''bad''])]"

text \<open>A working directory that holds the CSV file and nothing else.\<close>

definition csv_only :: "dataframe \<Rightarrow> (string \<rightharpoonup> content)" where
  "csv_only df = Map.empty(CSV_FILE \<mapsto> Tabular df)"


text \<open>One timestamp that parses, one that does not.\<close>

definition mixed_state :: state where
  "mixed_state = (start (csv_only []))\<lparr>table :=
     [(''broker'', [CStr ''A'', CStr ''B'']), (''timestamp'', [CStr ''23:00:00'', CStr ''not-a-time''])]\<rparr>"

text \<open>The example table without its broker column.\<close>

definition no_broker_table :: dataframe where
  "no_broker_table =
     [(''qos'', [CInt 0, CInt 0, CInt 0]),
      (''retain'', [CBool False, CBool True, CBool False]),
      (''payload_type'', [CStr ''JSON'', CStr ''Numeric'', CStr ''JSON'']),
      (''timestamp'', [CStr ''10:00:00'', CStr ''10:05:00'', CStr ''bad''])]"

text \<open>An environment in which saving the time chart fails.\<close>

definition time_fault :: env where
  "time_fault = quiet\<lparr>render_fault :=
     (\<lambda>p. if p = ''fig5_time.png'' then Some (OtherError ''savefig'') else None)\<rparr>"

text \<open>The renderer's state once the example table is loaded.\<close>

definition example_state :: state where
  "example_state = (start (csv_only example_table))\<lparr>table := example_table\<rparr>"

text \<open>The elements of a document that are embedded pictures rather than text.\<close>

fun is_picture :: "element \<Rightarrow> bool" where
  "is_picture (Picture p w) = True"
| "is_picture x = False"

text \<open>
  Two working directories with the same figure files present (the first and the third)
  but with different contents.
\<close>

definition stale_disk :: "string \<rightharpoonup> content" where
  "stale_disk = Map.empty(''fig1_code.png'' \<mapsto> Chart CodeFigure, ''fig3_payload.png'' \<mapsto> Garbled)"

definition fresh_disk :: "string \<rightharpoonup> content" where
  "fresh_disk = Map.empty(''fig1_code.png'' \<mapsto> Garbled,
     ''fig3_payload.png'' \<mapsto> Chart (PayloadBars []), CSV_FILE \<mapsto> Garbled)"

text \<open>An environment in which the third figure cannot be embedded.\<close>

definition embed_fault3 :: env where
  "embed_fault3 = quiet\<lparr>embed_fault :=
     (\<lambda>p. if p = ''fig3_payload.png'' then Some (OtherError ''not a PNG file'') else None)\<rparr>"

text \<open>An environment in which the document cannot be written.\<close>

definition write_fault :: env where
  "write_fault = quiet\<lparr>output_fault := (\<lambda>p. Some (OtherError ''permission denied''))\<rparr>"

text \<open>A table of three brokers with a missing value, out of count order.\<close>

definition broker_state :: state where
  "broker_state = (start (csv_only []))\<lparr>table :=
     [(''broker'', [CStr ''B'', CNaN, CStr ''A'', CStr ''C'', CStr ''A'', CStr ''C'', CStr ''A''])]\<rparr>"

text \<open>A table in which retained records outnumber the others.\<close>

definition retained_state :: state where
  "retained_state = (start (csv_only []))\<lparr>table :=
     [(''qos'', [CInt 0, CInt 0, CInt 0]),
      (''retain'', [CBool True, CBool False, CBool True])]\<rparr>"

text \<open>The example table with every record retained.\<close>

definition all_retained_table :: dataframe where
  "all_retained_table =
     [(''broker'', [CStr ''A'', CStr ''A'', CStr ''B'']),
      (''qos'', [CInt 0, CInt 0, CInt 0]),
      (''retain'', [CBool True, CBool True, CBool True]),
      (''payload_type'', [CStr ''JSON'', CStr ''Numeric'', CStr ''JSON'']),
      (''timestamp'', [CStr ''10:00:00'', CStr ''10:05:00'', CStr ''bad''])]"

text \<open>An environment in which saving the third figure fails.\<close>

definition payload_fault :: env where
  "payload_fault = quiet\<lparr>render_fault :=
     (\<lambda>p. if p = ''fig3_payload.png'' then Some (OtherError ''savefig'') else None)\<rparr>"

section \<open>Properties\<close>

subsection \<open>Sequencing and handlers\<close>

lemma seq_None: "fst (f s) = None \<Longrightarrow> seq f g s = g (snd (f s))"
  by (cases "f s") (simp add: seq_def)

lemma seq_Some: "fst (f s) = Some e \<Longrightarrow> seq f g s = (Some e, snd (f s))"
  by (cases "f s") (simp add: seq_def)

lemma fst_seq:
  "fst (seq f g s) = (case fst (f s) of None \<Rightarrow> fst (g (snd (f s))) | Some e \<Rightarrow> Some e)"
  by (cases "f s") (auto simp: seq_def split: option.splits)

lemma print_eq [simp]: "print m s = (None, s\<lparr>console := console s @ [m]\<rparr>)"
  by (simp add: print_def)

lemma fst_catch_print [simp]: "fst (catch f (\<lambda>e. print (h e)) s) = None"
  by (cases "f s") (auto simp: catch_def split: option.splits)

lemma figure5_returns: "fst (figure5 env s) = None"
  by (simp add: figure5_def)

lemma add_image_safe_returns: "fst (add_image_safe env p s) = None"
  by (simp add: add_image_safe_def)

lemma add_page_returns: "fst (add_page s) = None"
  by (simp add: add_page_def)

lemma chapter_title_returns: "fst (chapter_title t s) = None"
  by (simp add: chapter_title_def)

lemma chapter_body_returns: "fst (chapter_body t s) = None"
  by (simp add: chapter_body_def)

lemma assemble_returns: "fst (assemble env s) = None"
  unfolding assemble_def
  by (simp add: fst_seq add_image_safe_returns add_page_returns chapter_title_returns
      chapter_body_returns)

lemma create_pdf_returns: "fst (create_pdf env s) = None"
  unfolding create_pdf_def by (simp add: fst_seq assemble_returns)

lemma main_returns: "fst (main env s) = None"
  unfolding main_def by (simp add: fst_seq)

subsection \<open>Missing input\<close>

text \<open>
  C4. When the CSV path does not exist, the run prints one error line and does nothing
  else: no figure is rendered, no document is assembled, and the working directory is
  left as it was.
\<close>

theorem missing_csv_aborts:
  "disk s CSV_FILE = None \<Longrightarrow>
   main env s = (None, s\<lparr>console := console s @ [CsvNotFound CSV_FILE]\<rparr>)"
  by (simp add: main_def exists_def)

theorem missing_csv_aborts_witness:
  "disk (start Map.empty) CSV_FILE = None \<and>
   main quiet (start Map.empty) =
     (None, \<lparr>table = [], pdf = [], disk = Map.empty, console = [CsvNotFound CSV_FILE]\<rparr>)"
  using missing_csv_aborts [of "start Map.empty" quiet] by (simp add: start_def)

subsection \<open>The time chart\<close>

lemma keep_rows_self: "keep_rows hs hs = filter notna hs"
  by (induction hs) (auto simp: keep_rows_def)

lemma keep_rows_none: "filter notna hs = [] \<Longrightarrow> keep_rows hs col = []"
proof (induction hs arbitrary: col)
  case Nil
  then show ?case by (simp add: keep_rows_def)
next
  case (Cons h hs)
  then show ?case by (cases col) (auto simp: keep_rows_def split: if_splits)
qed

lemma map_of_setitem: "map_of (setitem df k col) = (map_of df)(k \<mapsto> col)"
  by (simp add: setitem_def update_conv')

lemma map_of_dropna:
  "map_of df k = Some hs \<Longrightarrow> map_of (dropna df k) k = Some (filter notna hs)"
proof -
  assume h: "map_of df k = Some hs"
  have "map_of (map (\<lambda>p. (fst p, keep_rows hs (snd p))) df) k = map_option (keep_rows hs) (map_of df k)"
    by (induction df) auto
  with h show ?thesis by (simp add: dropna_def keep_rows_self)
qed

lemma empty_dropna:
  assumes "map_of df k = Some hs"
  shows "empty_frame (dropna df k) = (filter notna hs = [])"
proof
  assume e: "empty_frame (dropna df k)"
  from assms have "(k, hs) \<in> set df" by (rule map_of_SomeD)
  then have "(k, keep_rows hs hs) \<in> set (dropna df k)"
    using assms by (force simp: dropna_def)
  with e have "keep_rows hs hs = []"
    by (auto simp: empty_frame_def list_all_iff)
  then show "filter notna hs = []" by (simp add: keep_rows_self)
next
  assume "filter notna hs = []"
  then show "empty_frame (dropna df k)"
    using assms by (simp add: dropna_def empty_frame_def list_all_iff keep_rows_none)
qed

lemma hours_filter: "hours (filter notna hs) = hours hs"
  by (simp add: hours_def)

lemma figure5_try_missing:
  "getitem (table s) ''timestamp'' = Inl e \<Longrightarrow> figure5_try env s = (Some e, s)"
  by (simp add: figure5_try_def raise_def)

lemma figure5_try_present:
  assumes "getitem (table s) ''timestamp'' = Inr ts"
  shows "figure5_try env s =
     (if filter notna (map to_hour ts) = []
      then (None, s\<lparr>table := setitem (table s) ''hour'' (map to_hour ts),
                     console := console s @ [WarnSkipFigure5]\<rparr>)
      else savefig env ''fig5_time.png'' (HourHist (hours (map to_hour ts)))
             (s\<lparr>table := setitem (table s) ''hour'' (map to_hour ts)\<rparr>))"
proof -
  let ?hs = "map to_hour ts"
  let ?df = "setitem (table s) ''hour'' ?hs"
  have m: "map_of ?df ''hour'' = Some ?hs" by (simp add: map_of_setitem)
  have g: "getitem (dropna ?df ''hour'') ''hour'' = Inr (filter notna ?hs)"
    using map_of_dropna [OF m] by (simp add: getitem_def)
  show ?thesis
    using assms empty_dropna [OF m] g
    by (simp add: figure5_try_def Let_def hours_filter)
qed

lemma to_hour_23: "to_hour (CStr ''23:00:00'') = CInt 23"
  by (simp add: strptime_HMS_def digit_value_def)

lemma to_hour_bad: "to_hour (CStr ''bad'') = CNaN"
  by (simp add: strptime_HMS_def)

lemma to_hour_not_a_time: "to_hour (CStr ''not-a-time'') = CNaN"
  by (simp add: strptime_HMS_def digit_value_def)

declare to_hour.simps [simp del]

lemma savefig_fault: "render_fault env p = Some e \<Longrightarrow> savefig env p c s = (Some e, s)"
  by (simp add: savefig_def)

lemma savefig_ok:
  "render_fault env p = None \<Longrightarrow> savefig env p c s = (None, s\<lparr>disk := (disk s)(p \<mapsto> Chart c)\<rparr>)"
  by (simp add: savefig_def)

lemma table_savefig: "table (snd (savefig env p c s)) = table s"
  by (simp add: savefig_def split: option.splits)


lemma table_figure5:
  "getitem (table s) ''timestamp'' = Inr ts \<Longrightarrow>
   table (snd (figure5 env s)) = setitem (table s) ''hour'' (map to_hour ts)"
  by (simp add: figure5_def catch_def figure5_try_present savefig_def split: option.splits)

lemma getitem_setitem_other:
  "k \<noteq> k' \<Longrightarrow> getitem (setitem df k' col) k = getitem df k"
  by (simp add: getitem_def map_of_setitem)



text \<open>
  C2. The hour of a timestamp is read with the fixed format HH:MM:SS: "23:00:00" gives
  23 and "not-a-time" gives the missing value. The time chart stores the hours as a new
  column of the table, so every record stays in the table with all its other columns,
  and the histogram shows the hours of exactly the records whose timestamp parsed.
\<close>

theorem hour_extraction:
  "to_hour (CStr ''23:00:00'') = CInt 23 \<and> to_hour (CStr ''not-a-time'') = CNaN \<and>
   (getitem (table s) ''timestamp'' = Inr ts \<longrightarrow>
      table (snd (figure5 env s)) = setitem (table s) ''hour'' (map to_hour ts) \<and>
      (\<forall>k. k \<noteq> ''hour'' \<longrightarrow> getitem (table (snd (figure5 env s))) k = getitem (table s) k) \<and>
      (render_fault env ''fig5_time.png'' = None \<and> hours (map to_hour ts) \<noteq> [] \<longrightarrow>
         disk (snd (figure5 env s)) ''fig5_time.png'' =
           Some (Chart (HourHist (hours (map to_hour ts))))))"
proof -
  have b: "disk (snd (figure5 env s)) ''fig5_time.png'' = Some (Chart (HourHist (hours (map to_hour ts))))"
    if "getitem (table s) ''timestamp'' = Inr ts" "render_fault env ''fig5_time.png'' = None"
      "hours (map to_hour ts) \<noteq> []"
    using that
    by (auto simp: figure5_def catch_def figure5_try_present savefig_ok hours_def)
  show ?thesis
    using b by (simp add: to_hour_23 to_hour_not_a_time table_figure5 getitem_setitem_other)
qed

theorem hour_extraction_witness:
  "getitem (table mixed_state) ''timestamp'' = Inr [CStr ''23:00:00'', CStr ''not-a-time''] \<and>
   render_fault quiet ''fig5_time.png'' = None \<and>
   disk (snd (figure5 quiet mixed_state)) ''fig5_time.png'' = Some (Chart (HourHist [23])) \<and>
   table (snd (figure5 quiet mixed_state)) =
     [(''broker'', [CStr ''A'', CStr ''B'']),
      (''timestamp'', [CStr ''23:00:00'', CStr ''not-a-time'']),
      (''hour'', [CInt 23, CNaN])]"
proof -
  have g: "getitem (table mixed_state) ''timestamp'' = Inr [CStr ''23:00:00'', CStr ''not-a-time'']"
    by (simp add: mixed_state_def getitem_def)
  have h: "hours (map to_hour [CStr ''23:00:00'', CStr ''not-a-time'']) = [23]"
    by (simp add: to_hour_23 to_hour_not_a_time hours_def notna_def)
  have d: "table mixed_state = [(''broker'', [CStr ''A'', CStr ''B'']), (''timestamp'', [CStr ''23:00:00'', CStr ''not-a-time''])]"
    by (simp add: mixed_state_def)
  show ?thesis
    using hour_extraction [of mixed_state "[CStr ''23:00:00'', CStr ''not-a-time'']" quiet] g h
    by (simp add: quiet_def d setitem_def to_hour_23 to_hour_not_a_time)
qed

subsection \<open>The renderer and the table\<close>

lemma table_figure1: "table (snd (figure1 env s)) = table s"
  by (simp add: figure1_def table_savefig)

lemma table_figure2: "table (snd (figure2 env s)) = table s"
  by (simp add: figure2_def raise_def table_savefig split: sum.splits)

lemma table_figure3: "table (snd (figure3 env s)) = table s"
  by (simp add: figure3_def raise_def table_savefig split: sum.splits)

lemma table_figure4: "table (snd (figure4 env s)) = table s"
  by (simp add: figure4_def raise_def table_savefig split: sum.splits)

lemma snd_seq:
  "snd (seq f g s) = (case fst (f s) of None \<Rightarrow> snd (g (snd (f s))) | Some e \<Rightarrow> snd (f s))"
  by (cases "f s") (auto simp: seq_def split: option.splits)

lemma generate_charts_raises:
  "fst (generate_charts env s) =
   fst (seq (figure1 env) (seq (figure2 env) (seq (figure3 env) (figure4 env))) s)"
  by (simp add: generate_charts_def fst_seq figure5_returns split: option.splits)

lemma read_csv_tabular:
  "disk s path = Some (Tabular df) \<Longrightarrow> read_csv path s = (None, s\<lparr>table := df\<rparr>)"
  by (simp add: read_csv_def)

lemma main_loaded:
  assumes "disk s CSV_FILE = Some (Tabular df)"
  shows "main env s =
     (case generate_charts env (s\<lparr>table := df, console := console s @ [LoadingData, GeneratingCharts]\<rparr>) of
        (None, s1) \<Rightarrow> create_pdf env (s1\<lparr>console := console s1 @ [BuildingPDF]\<rparr>)
      | (Some e, s1) \<Rightarrow> (None, s1\<lparr>console := console s1 @ [ErrorProcessingData e]\<rparr>))"
proof -
  let ?loaded = "s\<lparr>table := df, console := console s @ [LoadingData, GeneratingCharts]\<rparr>"
  obtain r s1 where g: "generate_charts env ?loaded = (r, s1)"
    by (cases "generate_charts env ?loaded")
  obtain s2 where c: "create_pdf env (s1\<lparr>console := console s1 @ [BuildingPDF]\<rparr>) = (None, s2)"
    using create_pdf_returns [of env "s1\<lparr>console := console s1 @ [BuildingPDF]\<rparr>"]
    by (cases "create_pdf env (s1\<lparr>console := console s1 @ [BuildingPDF]\<rparr>)") simp
  show ?thesis
    using assms g c
    by (cases r) (simp_all add: main_def exists_def seq_def catch_def read_csv_def)
qed

lemmas eval_defs = generate_charts_def figure1_def figure2_def figure3_def figure4_def
  seq_def catch_def raise_def getitem_def plot_variable_def
  value_counts_def countplot_def countplot_hue_def categorical_order_def uniq_def notna_def
  pie_def

lemma figure5_example:
  "table s = example_table \<Longrightarrow> render_fault env ''fig5_time.png'' = None \<Longrightarrow>
   figure5 env s = (None, s\<lparr>table := example_table @ [(''hour'', [CInt 10, CInt 10, CNaN])],
     disk := (disk s)(''fig5_time.png'' \<mapsto> Chart (HourHist [10, 10]))\<rparr>)"
proof -
  assume t: "table s = example_table" and r: "render_fault env ''fig5_time.png'' = None"
  have g: "getitem (table s) ''timestamp'' = Inr [CStr ''10:00:00'', CStr ''10:05:00'', CStr ''bad'']"
    by (simp add: t example_table_def getitem_def)
  have h: "to_hour (CStr ''10:00:00'') = CInt 10" "to_hour (CStr ''10:05:00'') = CInt 10"
    by (simp_all add: to_hour.simps strptime_HMS_def digit_value_def)
  show ?thesis
    by (simp add: figure5_def catch_def figure5_try_present [OF g] h to_hour_bad notna_def savefig_ok [OF r]
        hours_def t setitem_def example_table_def)
qed

lemma first_four_example:
  "table s = example_table \<Longrightarrow>
   render_fault env ''fig1_code.png'' = None \<Longrightarrow>
   render_fault env ''fig2_broker.png'' = None \<Longrightarrow>
   render_fault env ''fig3_payload.png'' = None \<Longrightarrow>
   render_fault env ''fig4_qos.png'' = None \<Longrightarrow>
   seq (figure1 env) (seq (figure2 env) (seq (figure3 env) (figure4 env))) s =
     (None, s\<lparr>disk := (disk s)
        (''fig1_code.png'' \<mapsto> Chart CodeFigure,
         ''fig2_broker.png'' \<mapsto> Chart (BrokerBars [(CStr ''A'', 2), (CStr ''B'', 1)]),
         ''fig3_payload.png'' \<mapsto> Chart (PayloadBars
            [(CStr ''A'', [(CStr ''JSON'', 1), (CStr ''Numeric'', 1)]),
             (CStr ''B'', [(CStr ''JSON'', 1), (CStr ''Numeric'', 0)])]),
         ''fig4_qos.png'' \<mapsto> Chart (QosRetain [(CInt 0, 3)]
            [(''Not Retained'', 2), (''Retained'', 1)]))\<rparr>)"
  by (simp add: eval_defs savefig_ok example_table_def eval_nat_numeral)

lemma seq_assoc: "seq (seq f g) h = seq f (seq g h)"
proof
  fix s show "seq (seq f g) h s = seq f (seq g h) s"
    by (cases "f s") (auto simp: seq_def split: option.splits)
qed

lemma generate_charts_split:
  "generate_charts env =
   seq (seq (figure1 env) (seq (figure2 env) (seq (figure3 env) (figure4 env)))) (figure5 env)"
  by (simp add: generate_charts_def seq_assoc)

lemma table_first_four:
  "table (snd (seq (figure1 env) (seq (figure2 env) (seq (figure3 env) (figure4 env))) s)) = table s"
  by (simp add: snd_seq table_figure1 table_figure2 table_figure3 table_figure4
      split: option.splits)

lemma table_figure5_cases:
  "table (snd (figure5 env s)) = table s \<or>
   (\<exists>ts. getitem (table s) ''timestamp'' = Inr ts \<and>
      table (snd (figure5 env s)) = setitem (table s) ''hour'' (map to_hour ts))"
proof (cases "getitem (table s) ''timestamp''")
  case (Inl e)
  then show ?thesis
    by (simp add: figure5_def catch_def figure5_try_missing)
next
  case (Inr ts)
  then show ?thesis by (simp add: table_figure5)
qed

lemma table_generate_charts_cases:
  "table (snd (generate_charts env s)) = table s \<or>
   (\<exists>ts. getitem (table s) ''timestamp'' = Inr ts \<and>
      table (snd (generate_charts env s)) = setitem (table s) ''hour'' (map to_hour ts))"
proof -
  let ?f = "seq (figure1 env) (seq (figure2 env) (seq (figure3 env) (figure4 env)))"
  show ?thesis
  proof (cases "fst (?f s)")
    case None
    then have "generate_charts env s = figure5 env (snd (?f s))"
      by (simp add: generate_charts_split seq_None)
    then show ?thesis
      using table_figure5_cases [of env "snd (?f s)"] by (simp add: table_first_four)
  next
    case (Some e)
    then have "generate_charts env s = (Some e, snd (?f s))"
      by (simp add: generate_charts_split seq_Some)
    then show ?thesis by (simp add: table_first_four)
  qed
qed

subsection \<open>Document assembly\<close>

lemma add_image_safe_eq:
  "add_image_safe env p s =
     (None,
      if exists s p
      then (case embed_fault env p of
              None \<Rightarrow> s\<lparr>pdf := pdf s @ [Picture p 170]\<rparr>
            | Some e \<Rightarrow> s\<lparr>console := console s @ [ErrorAddingImage p e]\<rparr>)
      else s\<lparr>console := console s @ [ImageNotFound p]\<rparr>)"
  by (simp add: add_image_safe_def catch_def pdf_image_def split: option.splits)

lemma pdf_add_image_safe:
  "pdf (snd (add_image_safe env p s)) =
     pdf s @ (if exists s p \<and> embed_fault env p = None then [Picture p 170] else [])"
  by (simp add: add_image_safe_eq split: option.splits)

lemma disk_add_image_safe: "disk (snd (add_image_safe env p s)) = disk s"
  by (simp add: add_image_safe_eq split: option.splits)

lemma exists_add_image_safe: "exists (snd (add_image_safe env p s)) q = exists s q"
  by (simp add: exists_def disk_add_image_safe)

lemma exists_add_page: "exists (snd (add_page s)) q = exists s q"
  by (simp add: exists_def add_page_def)

lemma exists_chapter_title: "exists (snd (chapter_title t s)) q = exists s q"
  by (simp add: exists_def chapter_title_def)

lemma exists_chapter_body: "exists (snd (chapter_body t s)) q = exists s q"
  by (simp add: exists_def chapter_body_def)

lemma exists_pdf_update: "exists (s\<lparr>pdf := x\<rparr>) q = exists s q"
  by (simp add: exists_def)

lemma pdf_add_page:
  "pdf (snd (add_page s)) = pdf s @ [NewPage, HeaderCell header, HeaderCell author]"
  by (simp add: add_page_def)

lemma pdf_chapter_title: "pdf (snd (chapter_title t s)) = pdf s @ [TitleCell t]"
  by (simp add: chapter_title_def)

lemma pdf_chapter_body: "pdf (snd (chapter_body t s)) = pdf s @ [BodyText t]"
  by (simp add: chapter_body_def)

lemmas assemble_steps =
  seq_None add_page_returns chapter_title_returns chapter_body_returns add_image_safe_returns

lemma assemble_unfold:
  "snd (assemble env s) =
   snd (chapter_body sec6_body
   (snd (chapter_title sec6_title
   (snd (add_image_safe env ''fig5_time.png''
   (snd (chapter_body sec5_body
   (snd (chapter_title sec5_title
   (snd (add_image_safe env ''fig4_qos.png''
   (snd (add_image_safe env ''fig3_payload.png''
   (snd (chapter_body sec4_body
   (snd (chapter_title sec4_title
   (snd (add_page
   (snd (add_image_safe env ''fig2_broker.png''
   (snd (chapter_body sec3_body
   (snd (chapter_title sec3_title
   (snd (add_image_safe env ''fig1_code.png''
   (snd (chapter_body sec2_body
   (snd (chapter_title sec2_title
   (snd (chapter_body sec1_body
   (snd (chapter_title sec1_title
   (snd (add_page
   (s\<lparr>pdf := []\<rparr>))))))))))))))))))))))))))))))))))))))"
  by (simp add: assemble_def assemble_steps)

lemma pdf_assemble:
  "pdf (snd (assemble env s)) =
     [NewPage, HeaderCell header, HeaderCell author,
      TitleCell sec1_title, BodyText sec1_body,
      TitleCell sec2_title, BodyText sec2_body] @
     (if exists s ''fig1_code.png'' \<and> embed_fault env ''fig1_code.png'' = None
      then [Picture ''fig1_code.png'' 170] else []) @
     [TitleCell sec3_title, BodyText sec3_body] @
     (if exists s ''fig2_broker.png'' \<and> embed_fault env ''fig2_broker.png'' = None
      then [Picture ''fig2_broker.png'' 170] else []) @
     [NewPage, HeaderCell header, HeaderCell author,
      TitleCell sec4_title, BodyText sec4_body] @
     (if exists s ''fig3_payload.png'' \<and> embed_fault env ''fig3_payload.png'' = None
      then [Picture ''fig3_payload.png'' 170] else []) @
     (if exists s ''fig4_qos.png'' \<and> embed_fault env ''fig4_qos.png'' = None
      then [Picture ''fig4_qos.png'' 170] else []) @
     [TitleCell sec5_title, BodyText sec5_body] @
     (if exists s ''fig5_time.png'' \<and> embed_fault env ''fig5_time.png'' = None
      then [Picture ''fig5_time.png'' 170] else []) @
     [TitleCell sec6_title, BodyText sec6_body]"
  unfolding assemble_unfold
  by (simp only: pdf_add_image_safe pdf_add_page pdf_chapter_title pdf_chapter_body
      exists_add_image_safe exists_add_page exists_chapter_title exists_chapter_body
      exists_pdf_update append_assoc append_Nil append_Cons) simp

lemma disk_assemble: "disk (snd (assemble env s)) = disk s"
  unfolding assemble_unfold
  by (simp add: disk_add_image_safe add_page_def chapter_title_def chapter_body_def)

lemma console_add_image_safe:
  "console (snd (add_image_safe env p s)) =
     console s @
     (if exists s p
      then (case embed_fault env p of None \<Rightarrow> [] | Some e \<Rightarrow> [ErrorAddingImage p e])
      else [ImageNotFound p])"
  by (simp add: add_image_safe_eq split: option.splits)

lemma console_add_page: "console (snd (add_page s)) = console s"
  by (simp add: add_page_def)

lemma console_chapter_title: "console (snd (chapter_title t s)) = console s"
  by (simp add: chapter_title_def)

lemma console_chapter_body: "console (snd (chapter_body t s)) = console s"
  by (simp add: chapter_body_def)

lemma console_assemble:
  "console (snd (assemble env s)) =
     console s @
     (if exists s ''fig1_code.png''
      then (case embed_fault env ''fig1_code.png'' of None \<Rightarrow> []
            | Some e \<Rightarrow> [ErrorAddingImage ''fig1_code.png'' e])
      else [ImageNotFound ''fig1_code.png'']) @
     (if exists s ''fig2_broker.png''
      then (case embed_fault env ''fig2_broker.png'' of None \<Rightarrow> []
            | Some e \<Rightarrow> [ErrorAddingImage ''fig2_broker.png'' e])
      else [ImageNotFound ''fig2_broker.png'']) @
     (if exists s ''fig3_payload.png''
      then (case embed_fault env ''fig3_payload.png'' of None \<Rightarrow> []
            | Some e \<Rightarrow> [ErrorAddingImage ''fig3_payload.png'' e])
      else [ImageNotFound ''fig3_payload.png'']) @
     (if exists s ''fig4_qos.png''
      then (case embed_fault env ''fig4_qos.png'' of None \<Rightarrow> []
            | Some e \<Rightarrow> [ErrorAddingImage ''fig4_qos.png'' e])
      else [ImageNotFound ''fig4_qos.png'']) @
     (if exists s ''fig5_time.png''
      then (case embed_fault env ''fig5_time.png'' of None \<Rightarrow> []
            | Some e \<Rightarrow> [ErrorAddingImage ''fig5_time.png'' e])
      else [ImageNotFound ''fig5_time.png''])"
  unfolding assemble_unfold
  by (simp only: console_add_image_safe console_add_page console_chapter_title
      console_chapter_body exists_add_image_safe exists_add_page exists_chapter_title
      exists_chapter_body exists_pdf_update append_assoc) simp

lemma create_pdf_eq:
  "create_pdf env s =
     (None,
      case output_fault env OUTPUT_PDF of
        None \<Rightarrow> (snd (assemble env s))
          \<lparr>disk := (disk s)(OUTPUT_PDF \<mapsto> Pdf (pdf (snd (assemble env s)))),
           console := console (snd (assemble env s)) @ [Success OUTPUT_PDF, UploadHint]\<rparr>
      | Some e \<Rightarrow> (snd (assemble env s))
          \<lparr>console := console (snd (assemble env s)) @ [ErrorSavingPDF e]\<rparr>)"
proof -
  have "create_pdf env s =
      catch (seq (pdf_output env OUTPUT_PDF) (seq (print (Success OUTPUT_PDF)) (print UploadHint)))
        (\<lambda>e. print (ErrorSavingPDF e)) (snd (assemble env s))"
    by (simp add: create_pdf_def seq_None assemble_returns)
  then show ?thesis
    by (simp add: catch_def seq_def pdf_output_def disk_assemble split: option.splits)
qed

text \<open>
  C5. The document depends on the working directory only through which of the five
  figure files exist: two assemblies that agree on that produce the same document. Its
  text is the same in every run (the header cells and the six titled sections, in order),
  at most five pictures are placed between the sections, and that document is what a
  successful write stores.
\<close>

theorem assembly_deterministic:
  "(exists s1 ''fig1_code.png'' = exists s2 ''fig1_code.png'' \<and>
    exists s1 ''fig2_broker.png'' = exists s2 ''fig2_broker.png'' \<and>
    exists s1 ''fig3_payload.png'' = exists s2 ''fig3_payload.png'' \<and>
    exists s1 ''fig4_qos.png'' = exists s2 ''fig4_qos.png'' \<and>
    exists s1 ''fig5_time.png'' = exists s2 ''fig5_time.png'' \<longrightarrow>
      pdf (snd (assemble env s1)) = pdf (snd (assemble env s2))) \<and>
   filter (\<lambda>x. \<not> is_picture x) (pdf (snd (assemble env s))) =
     [NewPage, HeaderCell header, HeaderCell author,
      TitleCell sec1_title, BodyText sec1_body,
      TitleCell sec2_title, BodyText sec2_body,
      TitleCell sec3_title, BodyText sec3_body,
      NewPage, HeaderCell header, HeaderCell author,
      TitleCell sec4_title, BodyText sec4_body,
      TitleCell sec5_title, BodyText sec5_body,
      TitleCell sec6_title, BodyText sec6_body] \<and>
   length (filter is_picture (pdf (snd (assemble env s)))) \<le> 5 \<and>
   (output_fault env OUTPUT_PDF = None \<longrightarrow>
      disk (snd (create_pdf env s)) OUTPUT_PDF = Some (Pdf (pdf (snd (assemble env s)))))"
proof -
  have a: "pdf (snd (assemble env s1)) = pdf (snd (assemble env s2))"
    if "exists s1 ''fig1_code.png'' = exists s2 ''fig1_code.png''"
      "exists s1 ''fig2_broker.png'' = exists s2 ''fig2_broker.png''"
      "exists s1 ''fig3_payload.png'' = exists s2 ''fig3_payload.png''"
      "exists s1 ''fig4_qos.png'' = exists s2 ''fig4_qos.png''"
      "exists s1 ''fig5_time.png'' = exists s2 ''fig5_time.png''"
    using that by (simp only: pdf_assemble)
  have b: "filter (\<lambda>x. \<not> is_picture x) (pdf (snd (assemble env s))) =
     [NewPage, HeaderCell header, HeaderCell author,
      TitleCell sec1_title, BodyText sec1_body,
      TitleCell sec2_title, BodyText sec2_body,
      TitleCell sec3_title, BodyText sec3_body,
      NewPage, HeaderCell header, HeaderCell author,
      TitleCell sec4_title, BodyText sec4_body,
      TitleCell sec5_title, BodyText sec5_body,
      TitleCell sec6_title, BodyText sec6_body]"
    by (simp add: pdf_assemble)
  have c: "length (filter is_picture (pdf (snd (assemble env s)))) \<le> 5"
    by (simp add: pdf_assemble)
  have d: "disk (snd (create_pdf env s)) OUTPUT_PDF = Some (Pdf (pdf (snd (assemble env s))))"
    if "output_fault env OUTPUT_PDF = None"
    using that by (simp add: create_pdf_eq)
  from a b c d show ?thesis by blast
qed

theorem assembly_deterministic_witness:
  "exists (start stale_disk) ''fig1_code.png'' = exists (start fresh_disk) ''fig1_code.png'' \<and>
   exists (start stale_disk) ''fig2_broker.png'' = exists (start fresh_disk) ''fig2_broker.png'' \<and>
   exists (start stale_disk) ''fig3_payload.png'' = exists (start fresh_disk) ''fig3_payload.png'' \<and>
   exists (start stale_disk) ''fig4_qos.png'' = exists (start fresh_disk) ''fig4_qos.png'' \<and>
   exists (start stale_disk) ''fig5_time.png'' = exists (start fresh_disk) ''fig5_time.png'' \<and>
   output_fault quiet OUTPUT_PDF = None \<and>
   pdf (snd (assemble quiet (start stale_disk))) = pdf (snd (assemble quiet (start fresh_disk))) \<and>
   disk (snd (create_pdf quiet (start stale_disk))) OUTPUT_PDF =
     Some (Pdf (pdf (snd (assemble quiet (start fresh_disk)))))"
proof -
  have e: "exists (start stale_disk) ''fig1_code.png'' = exists (start fresh_disk) ''fig1_code.png''"
    "exists (start stale_disk) ''fig2_broker.png'' = exists (start fresh_disk) ''fig2_broker.png''"
    "exists (start stale_disk) ''fig3_payload.png'' = exists (start fresh_disk) ''fig3_payload.png''"
    "exists (start stale_disk) ''fig4_qos.png'' = exists (start fresh_disk) ''fig4_qos.png''"
    "exists (start stale_disk) ''fig5_time.png'' = exists (start fresh_disk) ''fig5_time.png''"
    by (simp_all add: exists_def start_def stale_disk_def fresh_disk_def CSV_FILE_def)
  have q: "output_fault quiet OUTPUT_PDF = None"
    by (simp add: quiet_def)
  note th = assembly_deterministic
    [where ?s1.0 = "start stale_disk" and ?s2.0 = "start fresh_disk" and env = quiet
       and s = "start stale_disk"]
  from th e have p: "pdf (snd (assemble quiet (start stale_disk))) =
      pdf (snd (assemble quiet (start fresh_disk)))"
    by blast
  from th q have "disk (snd (create_pdf quiet (start stale_disk))) OUTPUT_PDF =
      Some (Pdf (pdf (snd (assemble quiet (start stale_disk)))))"
    by blast
  with p e q show ?thesis by simp
qed

text \<open>
  C8. \<open>add_image_safe\<close> never raises. When the file exists and embedding succeeds, the
  picture is added at width 170; when embedding fails, one error line is printed and the
  document is left as it was; when the file does not exist, one note is printed. In each
  case whatever follows is run, in the state the operation leaves.
\<close>

theorem add_image_safe_cases:
  "(exists s p \<and> embed_fault env p = None \<longrightarrow>
      add_image_safe env p s = (None, s\<lparr>pdf := pdf s @ [Picture p 170]\<rparr>)) \<and>
   (exists s p \<and> embed_fault env p = Some e \<longrightarrow>
      add_image_safe env p s = (None, s\<lparr>console := console s @ [ErrorAddingImage p e]\<rparr>)) \<and>
   (\<not> exists s p \<longrightarrow>
      add_image_safe env p s = (None, s\<lparr>console := console s @ [ImageNotFound p]\<rparr>)) \<and>
   seq (add_image_safe env p) k s = k (snd (add_image_safe env p s))"
  by (simp add: add_image_safe_eq seq_def)

theorem add_image_safe_cases_witness:
  "exists (start stale_disk) ''fig1_code.png'' \<and> embed_fault embed_fault3 ''fig1_code.png'' = None \<and>
   add_image_safe embed_fault3 ''fig1_code.png'' (start stale_disk) =
     (None, (start stale_disk)\<lparr>pdf := [Picture ''fig1_code.png'' 170]\<rparr>) \<and>
   exists (start stale_disk) ''fig3_payload.png'' \<and>
   embed_fault embed_fault3 ''fig3_payload.png'' = Some (OtherError ''not a PNG file'') \<and>
   add_image_safe embed_fault3 ''fig3_payload.png'' (start stale_disk) =
     (None, (start stale_disk)\<lparr>console :=
        [ErrorAddingImage ''fig3_payload.png'' (OtherError ''not a PNG file'')]\<rparr>) \<and>
   \<not> exists (start stale_disk) ''fig5_time.png'' \<and>
   add_image_safe embed_fault3 ''fig5_time.png'' (start stale_disk) =
     (None, (start stale_disk)\<lparr>console := [ImageNotFound ''fig5_time.png'']\<rparr>)"
proof -
  have x: "exists (start stale_disk) ''fig1_code.png''" "exists (start stale_disk) ''fig3_payload.png''"
    "\<not> exists (start stale_disk) ''fig5_time.png''"
    by (simp_all add: exists_def start_def stale_disk_def)
  have f: "embed_fault embed_fault3 ''fig1_code.png'' = None"
    "embed_fault embed_fault3 ''fig3_payload.png'' = Some (OtherError ''not a PNG file'')"
    by (simp_all add: embed_fault3_def quiet_def)
  have c: "pdf (start stale_disk) = []" "console (start stale_disk) = []"
    by (simp_all add: start_def)
  show ?thesis
    using add_image_safe_cases [of "start stale_disk" "''fig1_code.png''" embed_fault3]
      add_image_safe_cases [of "start stale_disk" "''fig3_payload.png''" embed_fault3
        "OtherError ''not a PNG file''"]
      add_image_safe_cases [of "start stale_disk" "''fig5_time.png''" embed_fault3]
      x f c
    by simp
qed

text \<open>
  C9. When writing the document fails, \<open>create_pdf\<close> catches the exception and prints
  one error line after the assembly's output; it writes no file (the working directory
  is as before), nothing else follows, and the run ends without an unhandled exception.
\<close>

theorem output_failure_reported:
  "output_fault env OUTPUT_PDF = Some e \<Longrightarrow>
   create_pdf env s =
     (None, (snd (assemble env s))\<lparr>console := console (snd (assemble env s)) @ [ErrorSavingPDF e]\<rparr>) \<and>
   disk (snd (create_pdf env s)) = disk s \<and>
   fst (main env s0) = None"
  by (simp add: create_pdf_eq disk_assemble main_returns)

theorem output_failure_reported_witness:
  "output_fault write_fault OUTPUT_PDF = Some (OtherError ''permission denied'') \<and>
   fst (create_pdf write_fault (start stale_disk)) = None \<and>
   disk (snd (create_pdf write_fault (start stale_disk))) OUTPUT_PDF = None \<and>
   console (snd (create_pdf write_fault (start stale_disk))) =
     [ImageNotFound ''fig2_broker.png'', ImageNotFound ''fig4_qos.png'',
      ImageNotFound ''fig5_time.png'', ErrorSavingPDF (OtherError ''permission denied'')]"
proof -
  have f: "output_fault write_fault OUTPUT_PDF = Some (OtherError ''permission denied'')"
    by (simp add: write_fault_def)
  have d: "disk (start stale_disk) OUTPUT_PDF = None"
    by (simp add: start_def stale_disk_def OUTPUT_PDF_def)
  have x: "exists (start stale_disk) ''fig1_code.png''" "exists (start stale_disk) ''fig3_payload.png''"
    "\<not> exists (start stale_disk) ''fig2_broker.png''" "\<not> exists (start stale_disk) ''fig4_qos.png''"
    "\<not> exists (start stale_disk) ''fig5_time.png''"
    by (simp_all add: exists_def start_def stale_disk_def)
  have q: "embed_fault write_fault p = None" for p
    by (simp add: write_fault_def quiet_def)
  have c: "console (snd (assemble write_fault (start stale_disk))) =
     [ImageNotFound ''fig2_broker.png'', ImageNotFound ''fig4_qos.png'',
      ImageNotFound ''fig5_time.png'']"
  proof -
    have "console (start stale_disk) = []" by (simp add: start_def)
    then show ?thesis by (simp add: console_assemble x q)
  qed
  note th = output_failure_reported [OF f, of "start stale_disk" "start stale_disk"]
  from th have a: "fst (create_pdf write_fault (start stale_disk)) = None"
    by simp
  from th have b: "disk (snd (create_pdf write_fault (start stale_disk))) = disk (start stale_disk)"
    by blast
  from th have k: "console (snd (create_pdf write_fault (start stale_disk))) =
      console (snd (assemble write_fault (start stale_disk))) @
      [ErrorSavingPDF (OtherError ''permission denied'')]"
    by simp
  show ?thesis
    by (simp add: f a b k c d)
qed

subsection \<open>Value counts and the charts built on them\<close>

lemma set_uniq: "set (uniq xs) = set xs"
  by (simp add: uniq_def)

lemma distinct_uniq: "distinct (uniq xs)"
  by (simp add: uniq_def)

lemma set_value_counts:
  "set (value_counts xs) = (\<lambda>v. (v, count_list xs v)) ` {v \<in> set xs. v \<noteq> CNaN}"
  by (auto simp: value_counts_def set_uniq notna_def)

lemma value_counts_entry: "(b, n) \<in> set (value_counts xs) \<Longrightarrow> n = count_list xs b"
  by (auto simp: set_value_counts)

lemma set_index_value_counts: "set (map fst (value_counts xs)) = {v \<in> set xs. v \<noteq> CNaN}"
  by (force simp: set_value_counts)

lemma distinct_index_value_counts: "distinct (map fst (value_counts xs))"
proof -
  let ?l = "map (\<lambda>v. (v, count_list xs v)) (uniq (filter notna xs))"
  have "map fst ?l = uniq (filter notna xs)" by (simp add: comp_def)
  then have d: "distinct (map fst ?l)" by (simp add: distinct_uniq)
  then have "distinct ?l" and "inj_on fst (set ?l)"
    by (simp_all only: distinct_map)
  then have "distinct (sort_key (\<lambda>p. - int (snd p)) ?l)"
    and "inj_on fst (set (sort_key (\<lambda>p. - int (snd p)) ?l))"
    by simp_all
  then show ?thesis
    unfolding value_counts_def by (simp only: distinct_map)
qed

lemma descending_value_counts: "sorted_wrt (\<lambda>p q. snd q \<le> snd p) (value_counts xs)"
proof -
  have "sorted (map (\<lambda>p. - int (snd p)) (value_counts xs))"
    unfolding value_counts_def by (rule sorted_sort_key)
  then show ?thesis
    by (simp add: sorted_map sorted_wrt_iff_nth_less)
qed

lemma countplot_value_counts: "countplot col (map fst (value_counts col)) = value_counts col"
proof -
  have "map (\<lambda>p. (fst p, count_list col (fst p))) (value_counts col) = value_counts col"
    by (rule map_idI) (auto simp: set_value_counts)
  then show ?thesis by (simp add: countplot_def comp_def)
qed

lemma figure2_ok:
  "getitem (table s) ''broker'' = Inr col \<Longrightarrow> render_fault env ''fig2_broker.png'' = None \<Longrightarrow>
   figure2 env s =
     (None, s\<lparr>disk := (disk s)(''fig2_broker.png'' \<mapsto> Chart (BrokerBars (value_counts col)))\<rparr>)"
  by (simp add: figure2_def countplot_value_counts savefig_ok)

lemma value_counts_example:
  "value_counts [CStr ''A'', CStr ''A'', CStr ''B''] = [(CStr ''A'', 2), (CStr ''B'', 1)]"
  by (simp add: value_counts_def uniq_def notna_def eval_nat_numeral)

text \<open>
  C6. The broker chart has one bar per distinct broker of the table, as long as the
  number of records of that broker, and the bars are in order of descending count. On the
  three-row example the bars are A = 2, B = 1, A first.
\<close>

theorem broker_chart_counts:
  "(getitem (table s) ''broker'' = Inr col \<and> render_fault env ''fig2_broker.png'' = None \<longrightarrow>
      (\<exists>bars. disk (snd (figure2 env s)) ''fig2_broker.png'' = Some (Chart (BrokerBars bars)) \<and>
         distinct (map fst bars) \<and>
         set (map fst bars) = {v \<in> set col. v \<noteq> CNaN} \<and>
         (\<forall>b n. (b, n) \<in> set bars \<longrightarrow> n = count_list col b) \<and>
         sorted_wrt (\<lambda>p q. snd q \<le> snd p) bars)) \<and>
   disk (snd (figure2 quiet example_state)) ''fig2_broker.png'' =
     Some (Chart (BrokerBars [(CStr ''A'', 2), (CStr ''B'', 1)]))"
proof -
  have g: "getitem (table example_state) ''broker'' = Inr [CStr ''A'', CStr ''A'', CStr ''B'']"
    by (simp add: example_state_def example_table_def getitem_def)
  have q: "render_fault quiet ''fig2_broker.png'' = None"
    by (simp add: quiet_def)
  have x: "disk (snd (figure2 quiet example_state)) ''fig2_broker.png'' =
     Some (Chart (BrokerBars [(CStr ''A'', 2), (CStr ''B'', 1)]))"
    by (simp add: figure2_ok [OF g q] value_counts_example)
  have y: "\<exists>bars. disk (snd (figure2 env s)) ''fig2_broker.png'' = Some (Chart (BrokerBars bars)) \<and>
         distinct (map fst bars) \<and>
         set (map fst bars) = {v \<in> set col. v \<noteq> CNaN} \<and>
         (\<forall>b n. (b, n) \<in> set bars \<longrightarrow> n = count_list col b) \<and>
         sorted_wrt (\<lambda>p q. snd q \<le> snd p) bars"
    if "getitem (table s) ''broker'' = Inr col" "render_fault env ''fig2_broker.png'' = None"
  proof (intro exI conjI)
    show "disk (snd (figure2 env s)) ''fig2_broker.png'' =
        Some (Chart (BrokerBars (value_counts col)))"
      using that by (simp add: figure2_ok)
    show "distinct (map fst (value_counts col))"
      by (rule distinct_index_value_counts)
    show "set (map fst (value_counts col)) = {v \<in> set col. v \<noteq> CNaN}"
      by (rule set_index_value_counts)
    show "\<forall>b n. (b, n) \<in> set (value_counts col) \<longrightarrow> n = count_list col b"
      by (blast dest: value_counts_entry)
    show "sorted_wrt (\<lambda>p q. snd q \<le> snd p) (value_counts col)"
      by (rule descending_value_counts)
  qed
  from x y show ?thesis by blast
qed

theorem broker_chart_counts_witness:
  "getitem (table broker_state) ''broker'' =
     Inr [CStr ''B'', CNaN, CStr ''A'', CStr ''C'', CStr ''A'', CStr ''C'', CStr ''A''] \<and>
   render_fault quiet ''fig2_broker.png'' = None \<and>
   disk (snd (figure2 quiet broker_state)) ''fig2_broker.png'' =
     Some (Chart (BrokerBars [(CStr ''A'', 3), (CStr ''C'', 2), (CStr ''B'', 1)])) \<and>
   (\<exists>bars. disk (snd (figure2 quiet broker_state)) ''fig2_broker.png'' =
       Some (Chart (BrokerBars bars)) \<and> sorted_wrt (\<lambda>p q. snd q \<le> snd p) bars)"
proof -
  let ?col = "[CStr ''B'', CNaN, CStr ''A'', CStr ''C'', CStr ''A'', CStr ''C'', CStr ''A'']"
  have g: "getitem (table broker_state) ''broker'' = Inr ?col"
    by (simp add: broker_state_def getitem_def)
  have q: "render_fault quiet ''fig2_broker.png'' = None"
    by (simp add: quiet_def)
  have v: "value_counts ?col = [(CStr ''A'', 3), (CStr ''C'', 2), (CStr ''B'', 1)]"
    by (simp add: value_counts_def uniq_def notna_def eval_nat_numeral)
  have d: "disk (snd (figure2 quiet broker_state)) ''fig2_broker.png'' =
     Some (Chart (BrokerBars [(CStr ''A'', 3), (CStr ''C'', 2), (CStr ''B'', 1)]))"
    by (simp add: figure2_ok [OF g q] v)
  from broker_chart_counts [of broker_state ?col quiet] g q
  have "\<exists>bars. disk (snd (figure2 quiet broker_state)) ''fig2_broker.png'' =
       Some (Chart (BrokerBars bars)) \<and> sorted_wrt (\<lambda>p q. snd q \<le> snd p) bars"
    by blast
  with g q d show ?thesis by blast
qed

lemma figure4_completes:
  assumes "fst (figure4 env s) = None" and "getitem (table s) ''retain'' = Inr rs"
  shows "\<exists>qs a b. value_counts rs = [a, b] \<and>
     figure4 env s =
       (None, s\<lparr>disk := (disk s)(''fig4_qos.png'' \<mapsto>
          Chart (QosRetain (countplot qs (categorical_order qs))
            [(''Not Retained'', snd a), (''Retained'', snd b)]))\<rparr>)"
proof -
  from assms obtain qs where q: "plot_variable (table s) ''qos'' = Inr qs"
    by (cases "plot_variable (table s) ''qos''") (simp_all add: figure4_def raise_def)
  have l: "length (value_counts rs) = 2"
    using assms q
    by (cases "length (value_counts rs) = 2") (simp_all add: figure4_def raise_def pie_def)
  then obtain a b where v: "value_counts rs = [a, b]"
    by (auto simp: length_Suc_conv eval_nat_numeral)
  have r: "render_fault env ''fig4_qos.png'' = None"
    using assms q v
    by (cases "render_fault env ''fig4_qos.png''")
      (simp_all add: figure4_def raise_def pie_def savefig_def)
  have "figure4 env s =
       (None, s\<lparr>disk := (disk s)(''fig4_qos.png'' \<mapsto>
          Chart (QosRetain (countplot qs (categorical_order qs))
            [(''Not Retained'', snd a), (''Retained'', snd b)]))\<rparr>)"
    using assms q v r by (simp add: figure4_def pie_def savefig_def)
  with v show ?thesis by blast
qed

lemma two_value_counts:
  assumes "value_counts rs = [a, b]"
  shows "snd a = count_list rs (fst a)" and "snd b = count_list rs (fst b)"
    and "fst a \<noteq> fst b" and "{v \<in> set rs. v \<noteq> CNaN} = {fst a, fst b}"
    and "count_list rs (fst b) \<le> count_list rs (fst a)"
proof -
  have "a \<in> set (value_counts rs)" "b \<in> set (value_counts rs)"
    using assms by simp_all
  then show sa: "snd a = count_list rs (fst a)" and sb: "snd b = count_list rs (fst b)"
    by (auto simp: set_value_counts)
  show "fst a \<noteq> fst b"
    using distinct_index_value_counts [of rs] assms by simp
  show "{v \<in> set rs. v \<noteq> CNaN} = {fst a, fst b}"
    using set_index_value_counts [of rs] assms by simp
  show "count_list rs (fst b) \<le> count_list rs (fst a)"
    using descending_value_counts [of rs] assms sa sb by simp
qed

subsection \<open>Failure isolation in the renderer\<close>

lemma figure5_caught:
  "fst (figure5_try env s) = Some e \<Longrightarrow>
   figure5 env s =
     (None, (snd (figure5_try env s))
        \<lparr>console := console (snd (figure5_try env s)) @ [WarnTimeChart e]\<rparr>)"
  by (cases "figure5_try env s") (simp add: figure5_def catch_def)

lemma figure5_try_example_fault:
  assumes "table s = example_table" and "render_fault env ''fig5_time.png'' = Some e"
  shows "figure5_try env s =
     (Some e, s\<lparr>table := example_table @ [(''hour'', [CInt 10, CInt 10, CNaN])]\<rparr>)"
proof -
  have g: "getitem (table s) ''timestamp'' = Inr [CStr ''10:00:00'', CStr ''10:05:00'', CStr ''bad'']"
    by (simp add: assms(1) example_table_def getitem_def)
  have h: "to_hour (CStr ''10:00:00'') = CInt 10" "to_hour (CStr ''10:05:00'') = CInt 10"
    by (simp_all add: to_hour.simps strptime_HMS_def digit_value_def)
  show ?thesis
    by (simp add: figure5_try_present [OF g] h to_hour_bad notna_def savefig_fault [OF assms(2)]
        assms(1) setitem_def example_table_def)
qed

subsection \<open>The hour column\<close>

lemma getitem_setitem_same: "getitem (setitem df k col) k = Inr col"
  by (simp add: getitem_def map_of_setitem)

lemma table_figure5_missing:
  "getitem (table s) ''timestamp'' = Inl e \<Longrightarrow> table (snd (figure5 env s)) = table s"
  by (simp add: figure5_def catch_def figure5_try_missing)

text \<open>
  C3 (as amended). The renderer works on the caller's table and changes it in exactly
  one case: when the first four figures have rendered and the table has a timestamp
  column, the time-chart step stores the derived hours as column \<open>hour\<close> of that table
  (in place of a column of that name, otherwise as a new last column). When one of the
  first four figures raises, or the table has no timestamp column, the table is left as it
  was. In every case each other column, with all its rows, is unchanged.
\<close>

theorem renderer_adds_hour_column:
  "(\<forall>k. k \<noteq> ''hour'' \<longrightarrow>
      getitem (table (snd (generate_charts env s))) k = getitem (table s) k) \<and>
   (fst (seq (figure1 env) (seq (figure2 env) (seq (figure3 env) (figure4 env))) s) = None \<and>
    getitem (table s) ''timestamp'' = Inr ts \<longrightarrow>
      table (snd (generate_charts env s)) = setitem (table s) ''hour'' (map to_hour ts) \<and>
      getitem (table (snd (generate_charts env s))) ''hour'' = Inr (map to_hour ts)) \<and>
   (fst (seq (figure1 env) (seq (figure2 env) (seq (figure3 env) (figure4 env))) s) = Some x \<longrightarrow>
      table (snd (generate_charts env s)) = table s) \<and>
   (getitem (table s) ''timestamp'' = Inl e \<longrightarrow>
      table (snd (generate_charts env s)) = table s)"
proof -
  let ?f = "seq (figure1 env) (seq (figure2 env) (seq (figure3 env) (figure4 env)))"
  have other: "\<forall>k. k \<noteq> ''hour'' \<longrightarrow>
      getitem (table (snd (generate_charts env s))) k = getitem (table s) k"
    using table_generate_charts_cases [of env s] by (auto simp: getitem_setitem_other)
  have stored: "table (snd (generate_charts env s)) = setitem (table s) ''hour'' (map to_hour ts)"
    if "fst (?f s) = None" "getitem (table s) ''timestamp'' = Inr ts"
  proof -
    from that(1) have "generate_charts env s = figure5 env (snd (?f s))"
      by (simp add: generate_charts_split seq_None)
    moreover have "getitem (table (snd (?f s))) ''timestamp'' = Inr ts"
      using that(2) by (simp add: table_first_four)
    ultimately show ?thesis
      by (simp add: table_figure5 table_first_four)
  qed
  have raised: "table (snd (generate_charts env s)) = table s" if "fst (?f s) = Some x"
  proof -
    from that have "generate_charts env s = (Some x, snd (?f s))"
      by (simp add: generate_charts_split seq_Some)
    then show ?thesis by (simp add: table_first_four)
  qed
  have absent: "table (snd (generate_charts env s)) = table s"
    if m: "getitem (table s) ''timestamp'' = Inl e"
  proof (cases "fst (?f s)")
    case None
    then have "generate_charts env s = figure5 env (snd (?f s))"
      by (simp add: generate_charts_split seq_None)
    moreover have "getitem (table (snd (?f s))) ''timestamp'' = Inl e"
      using m by (simp add: table_first_four)
    ultimately show ?thesis
      by (simp add: table_figure5_missing table_first_four)
  next
    case (Some y)
    then have "generate_charts env s = (Some y, snd (?f s))"
      by (simp add: generate_charts_split seq_Some)
    then show ?thesis by (simp add: table_first_four)
  qed
  from other stored raised absent show ?thesis
    by (simp add: getitem_setitem_same)
qed

theorem renderer_adds_hour_column_witness:
  "fst (seq (figure1 quiet) (seq (figure2 quiet) (seq (figure3 quiet) (figure4 quiet)))
     example_state) = None \<and>
   getitem (table example_state) ''timestamp'' =
     Inr [CStr ''10:00:00'', CStr ''10:05:00'', CStr ''bad''] \<and>
   table (snd (generate_charts quiet example_state)) =
     example_table @ [(''hour'', [CInt 10, CInt 10, CNaN])] \<and>
   getitem (table (snd (generate_charts quiet example_state))) ''broker'' =
     Inr [CStr ''A'', CStr ''A'', CStr ''B'']"
proof -
  let ?ts = "[CStr ''10:00:00'', CStr ''10:05:00'', CStr ''bad'']"
  have t: "table example_state = example_table"
    by (simp add: example_state_def)
  have q: "render_fault quiet p = None" for p
    by (simp add: quiet_def)
  have f: "fst (seq (figure1 quiet) (seq (figure2 quiet) (seq (figure3 quiet) (figure4 quiet)))
     example_state) = None"
    by (simp add: first_four_example [OF t q q q q])
  have g: "getitem (table example_state) ''timestamp'' = Inr ?ts"
    by (simp add: t example_table_def getitem_def)
  have b: "getitem (table example_state) ''broker'' = Inr [CStr ''A'', CStr ''A'', CStr ''B'']"
    by (simp add: t example_table_def getitem_def)
  have h: "map to_hour ?ts = [CInt 10, CInt 10, CNaN]"
    by (simp add: to_hour.simps strptime_HMS_def digit_value_def)
  have u: "setitem example_table ''hour'' [CInt 10, CInt 10, CNaN] =
      example_table @ [(''hour'', [CInt 10, CInt 10, CNaN])]"
    by (simp add: setitem_def example_table_def)
  note th = renderer_adds_hour_column [of quiet example_state ?ts]
  from th f g have "table (snd (generate_charts quiet example_state)) =
      setitem (table example_state) ''hour'' (map to_hour ?ts)"
    by blast
  then have x: "table (snd (generate_charts quiet example_state)) =
      example_table @ [(''hour'', [CInt 10, CInt 10, CNaN])]"
    by (simp only: t h u)
  from th have "getitem (table (snd (generate_charts quiet example_state))) ''broker'' =
      getitem (table example_state) ''broker''"
    by simp
  with b have y: "getitem (table (snd (generate_charts quiet example_state))) ''broker'' =
      Inr [CStr ''A'', CStr ''A'', CStr ''B'']"
    by simp
  from f g x y show ?thesis by blast
qed

text \<open>
  As the specification states it, the property fails on the three-row table: after the
  renderer the caller's table has a column it did not have before.
\<close>

theorem renderer_mutates_table_counterexample:
  "getitem (table example_state) ''hour'' = Inl (KeyError ''hour'') \<and>
   getitem (table (snd (generate_charts quiet example_state))) ''hour'' =
     Inr [CInt 10, CInt 10, CNaN] \<and>
   table (snd (generate_charts quiet example_state)) \<noteq> table example_state"
proof -
  have t: "table example_state = example_table"
    by (simp add: example_state_def)
  have q: "render_fault quiet p = None" for p
    by (simp add: quiet_def)
  have "generate_charts quiet example_state =
    figure5 quiet (snd (seq (figure1 quiet) (seq (figure2 quiet) (seq (figure3 quiet) (figure4 quiet))) example_state))"
    by (simp add: generate_charts_split seq_None first_four_example [OF t q q q q])
  then have "table (snd (generate_charts quiet example_state)) =
    example_table @ [(''hour'', [CInt 10, CInt 10, CNaN])]"
    by (simp add: first_four_example [OF t q q q q] figure5_example t q)
  then show ?thesis
    by (simp add: t getitem_def example_table_def)
qed

subsection \<open>The labels of the pie chart\<close>

lemma length_value_counts: "length (value_counts rs) = card {v \<in> set rs. v \<noteq> CNaN}"
proof -
  have "length (value_counts rs) = length (remdups (rev (filter notna rs)))"
    by (simp add: value_counts_def uniq_def)
  also have "\<dots> = card (set (rev (filter notna rs)))"
    by (rule length_remdups_card_conv)
  also have "set (rev (filter notna rs)) = {v \<in> set rs. v \<noteq> CNaN}"
    by (auto simp: notna_def)
  finally show ?thesis .
qed

lemma pie_two:
  assumes "card {v \<in> set rs. v \<noteq> CNaN} = 2"
  shows "\<exists>v1 v2. pie (map snd (value_counts rs)) [''Not Retained'', ''Retained''] =
        Inr [(''Not Retained'', count_list rs v1), (''Retained'', count_list rs v2)] \<and>
      v1 \<noteq> v2 \<and> {v \<in> set rs. v \<noteq> CNaN} = {v1, v2} \<and>
      count_list rs v2 \<le> count_list rs v1 \<and>
      value_counts rs = [(v1, count_list rs v1), (v2, count_list rs v2)]"
proof -
  from assms have "length (value_counts rs) = 2"
    by (simp add: length_value_counts)
  then obtain a b where v: "value_counts rs = [a, b]"
    by (auto simp: length_Suc_conv eval_nat_numeral)
  note t = two_value_counts [OF v]
  have "pie (map snd (value_counts rs)) [''Not Retained'', ''Retained''] =
      Inr [(''Not Retained'', count_list rs (fst a)), (''Retained'', count_list rs (fst b))]"
    by (simp add: v pie_def t(1,2))
  moreover have "value_counts rs = [(fst a, count_list rs (fst a)), (fst b, count_list rs (fst b))]"
    using t(1,2) by (simp add: v prod_eq_iff)
  ultimately show ?thesis
    using t(3,4,5) by blast
qed

lemma pie_retained_majority:
  assumes s: "set rs \<subseteq> {CBool True, CBool False, CNaN}"
    and p: "0 < count_list rs (CBool False)"
    and c: "count_list rs (CBool False) < count_list rs (CBool True)"
  shows "pie (map snd (value_counts rs)) [''Not Retained'', ''Retained''] =
      Inr [(''Not Retained'', count_list rs (CBool True)),
           (''Retained'', count_list rs (CBool False))]"
proof -
  have f: "CBool False \<in> set rs"
  proof (rule ccontr)
    assume "CBool False \<notin> set rs"
    then have "count_list rs (CBool False) = 0" by (simp add: count_list_0_iff)
    with p show False by simp
  qed
  have t: "CBool True \<in> set rs"
  proof (rule ccontr)
    assume "CBool True \<notin> set rs"
    then have "count_list rs (CBool True) = 0" by (simp add: count_list_0_iff)
    with c show False by simp
  qed
  from s f t have e: "{v \<in> set rs. v \<noteq> CNaN} = {CBool True, CBool False}"
    by auto
  then have "card {v \<in> set rs. v \<noteq> CNaN} = 2" by simp
  from pie_two [OF this] obtain v1 v2 where
    w: "pie (map snd (value_counts rs)) [''Not Retained'', ''Retained''] =
        Inr [(''Not Retained'', count_list rs v1), (''Retained'', count_list rs v2)]"
    and n: "v1 \<noteq> v2" and m: "{v \<in> set rs. v \<noteq> CNaN} = {v1, v2}"
    and l: "count_list rs v2 \<le> count_list rs v1"
    by blast
  from e m have "{v1, v2} = {CBool True, CBool False}" by simp
  with n have "(v1 = CBool True \<and> v2 = CBool False) \<or> (v1 = CBool False \<and> v2 = CBool True)"
    by (auto simp: doubleton_eq_iff)
  with l c have "v1 = CBool True \<and> v2 = CBool False" by auto
  with w show ?thesis by simp
qed

lemma pie_mismatch:
  "card {v \<in> set rs. v \<noteq> CNaN} \<noteq> 2 \<Longrightarrow>
   pie (map snd (value_counts rs)) [''Not Retained'', ''Retained''] =
     Inl (ValueError ''label must be of length x'')"
  by (simp add: pie_def length_value_counts)

lemma figure4_eq:
  "plot_variable (table s) ''qos'' = Inr qs \<Longrightarrow> getitem (table s) ''retain'' = Inr rs \<Longrightarrow>
   figure4 env s =
     (case pie (map snd (value_counts rs)) [''Not Retained'', ''Retained''] of
        Inl e \<Rightarrow> (Some e, s)
      | Inr wedges \<Rightarrow>
          savefig env ''fig4_qos.png''
            (QosRetain (countplot qs (categorical_order qs)) wedges) s)"
  by (simp add: figure4_def raise_def split: sum.splits)

lemma figure4_drawn:
  assumes "plot_variable (table s) ''qos'' = Inr qs" and "getitem (table s) ''retain'' = Inr rs"
    and "render_fault env ''fig4_qos.png'' = None"
    and "pie (map snd (value_counts rs)) [''Not Retained'', ''Retained''] = Inr wedges"
  shows "figure4 env s =
     (None, s\<lparr>disk := (disk s)(''fig4_qos.png'' \<mapsto>
        Chart (QosRetain (countplot qs (categorical_order qs)) wedges))\<rparr>)"
  using assms by (simp add: figure4_eq savefig_ok)

text \<open>
  C10 (as amended). The pie chart takes its labels by count rank, not by value. On a
  table with a qos and a retain column: when the retain column has exactly two distinct
  values and the figure can be saved, the wedge labelled \<open>Not Retained\<close> shows the count
  of the more frequent value and the wedge labelled \<open>Retained\<close> the count of the other;
  so when the column is boolean, has at least one record that is not retained, and
  retained records outnumber the others, the wedge labelled \<open>Retained\<close> shows the number
  of records that are not retained. When the column does not have exactly two distinct
  values (in particular when every record is retained) the pie call raises, the figure
  step has no handler, and no chart is drawn.
\<close>

theorem pie_labels_by_rank:
  assumes "plot_variable (table s) ''qos'' = Inr qs"
    and "getitem (table s) ''retain'' = Inr rs"
  shows "(card {v \<in> set rs. v \<noteq> CNaN} = 2 \<and> render_fault env ''fig4_qos.png'' = None \<longrightarrow>
       (\<exists>v1 v2.
          figure4 env s =
            (None, s\<lparr>disk := (disk s)(''fig4_qos.png'' \<mapsto>
               Chart (QosRetain (countplot qs (categorical_order qs))
                 [(''Not Retained'', count_list rs v1), (''Retained'', count_list rs v2)]))\<rparr>) \<and>
          v1 \<noteq> v2 \<and> {v \<in> set rs. v \<noteq> CNaN} = {v1, v2} \<and>
          count_list rs v2 \<le> count_list rs v1)) \<and>
     (set rs \<subseteq> {CBool True, CBool False, CNaN} \<and> 0 < count_list rs (CBool False) \<and>
      count_list rs (CBool False) < count_list rs (CBool True) \<and>
      render_fault env ''fig4_qos.png'' = None \<longrightarrow>
        figure4 env s =
          (None, s\<lparr>disk := (disk s)(''fig4_qos.png'' \<mapsto>
             Chart (QosRetain (countplot qs (categorical_order qs))
               [(''Not Retained'', count_list rs (CBool True)),
                (''Retained'', count_list rs (CBool False))]))\<rparr>)) \<and>
     (card {v \<in> set rs. v \<noteq> CNaN} \<noteq> 2 \<longrightarrow>
        figure4 env s = (Some (ValueError ''label must be of length x''), s)) \<and>
     (set rs \<subseteq> {CBool True, CBool False, CNaN} \<and> count_list rs (CBool False) = 0 \<longrightarrow>
        figure4 env s = (Some (ValueError ''label must be of length x''), s))"
proof -
  have a: "\<exists>v1 v2.
          figure4 env s =
            (None, s\<lparr>disk := (disk s)(''fig4_qos.png'' \<mapsto>
               Chart (QosRetain (countplot qs (categorical_order qs))
                 [(''Not Retained'', count_list rs v1), (''Retained'', count_list rs v2)]))\<rparr>) \<and>
          v1 \<noteq> v2 \<and> {v \<in> set rs. v \<noteq> CNaN} = {v1, v2} \<and>
          count_list rs v2 \<le> count_list rs v1"
    if "card {v \<in> set rs. v \<noteq> CNaN} = 2" "render_fault env ''fig4_qos.png'' = None"
  proof -
    from pie_two [OF that(1)] obtain v1 v2 where
      w: "pie (map snd (value_counts rs)) [''Not Retained'', ''Retained''] =
        Inr [(''Not Retained'', count_list rs v1), (''Retained'', count_list rs v2)]"
      and r: "v1 \<noteq> v2" "{v \<in> set rs. v \<noteq> CNaN} = {v1, v2}"
        "count_list rs v2 \<le> count_list rs v1"
      by blast
    from figure4_drawn [OF assms that(2) w] r show ?thesis by blast
  qed
  have b: "figure4 env s =
          (None, s\<lparr>disk := (disk s)(''fig4_qos.png'' \<mapsto>
             Chart (QosRetain (countplot qs (categorical_order qs))
               [(''Not Retained'', count_list rs (CBool True)),
                (''Retained'', count_list rs (CBool False))]))\<rparr>)"
    if "set rs \<subseteq> {CBool True, CBool False, CNaN}" "0 < count_list rs (CBool False)"
      "count_list rs (CBool False) < count_list rs (CBool True)"
      "render_fault env ''fig4_qos.png'' = None"
    by (rule figure4_drawn [OF assms that(4) pie_retained_majority [OF that(1,2,3)]])
  have c: "figure4 env s = (Some (ValueError ''label must be of length x''), s)"
    if "card {v \<in> set rs. v \<noteq> CNaN} \<noteq> 2"
    using that assms by (simp add: figure4_eq pie_mismatch)
  have d: "figure4 env s = (Some (ValueError ''label must be of length x''), s)"
    if u: "set rs \<subseteq> {CBool True, CBool False, CNaN}" and z: "count_list rs (CBool False) = 0"
  proof -
    from z have "CBool False \<notin> set rs" by (simp add: count_list_0_iff)
    with u have "{v \<in> set rs. v \<noteq> CNaN} \<subseteq> {CBool True}" by auto
    then have "card {v \<in> set rs. v \<noteq> CNaN} \<le> card {CBool True}"
      by (intro card_mono) simp_all
    then have "card {v \<in> set rs. v \<noteq> CNaN} \<noteq> 2" by simp
    then show ?thesis by (rule c)
  qed
  from a b c d show ?thesis by blast
qed

theorem pie_labels_by_rank_witness:
  "plot_variable (table retained_state) ''qos'' = Inr [CInt 0, CInt 0, CInt 0] \<and>
   getitem (table retained_state) ''retain'' = Inr [CBool True, CBool False, CBool True] \<and>
   set [CBool True, CBool False, CBool True] \<subseteq> {CBool True, CBool False, CNaN} \<and>
   0 < count_list [CBool True, CBool False, CBool True] (CBool False) \<and>
   count_list [CBool True, CBool False, CBool True] (CBool False) <
     count_list [CBool True, CBool False, CBool True] (CBool True) \<and>
   render_fault quiet ''fig4_qos.png'' = None \<and>
   figure4 quiet retained_state =
     (None, retained_state\<lparr>disk := (disk retained_state)(''fig4_qos.png'' \<mapsto>
        Chart (QosRetain [(CInt 0, 3)] [(''Not Retained'', 2), (''Retained'', 1)]))\<rparr>)"
proof -
  let ?rs = "[CBool True, CBool False, CBool True]"
  let ?qs = "[CInt 0, CInt 0, CInt 0]"
  have q: "plot_variable (table retained_state) ''qos'' = Inr ?qs"
    by (simp add: retained_state_def plot_variable_def)
  have g: "getitem (table retained_state) ''retain'' = Inr ?rs"
    by (simp add: retained_state_def getitem_def)
  have r: "render_fault quiet ''fig4_qos.png'' = None"
    by (simp add: quiet_def)
  have c: "set ?rs \<subseteq> {CBool True, CBool False, CNaN}" "0 < count_list ?rs (CBool False)"
    "count_list ?rs (CBool False) < count_list ?rs (CBool True)"
    by simp_all
  have n: "count_list ?rs (CBool True) = 2" "count_list ?rs (CBool False) = 1"
    by simp_all
  have k: "countplot ?qs (categorical_order ?qs) = [(CInt 0, 3)]"
    by (simp add: countplot_def categorical_order_def uniq_def notna_def)
  from pie_labels_by_rank [OF q g, of quiet] c r
  have "figure4 quiet retained_state =
      (None, retained_state\<lparr>disk := (disk retained_state)(''fig4_qos.png'' \<mapsto>
         Chart (QosRetain (countplot ?qs (categorical_order ?qs))
           [(''Not Retained'', count_list ?rs (CBool True)),
            (''Retained'', count_list ?rs (CBool False))]))\<rparr>)"
    by blast
  then have "figure4 quiet retained_state =
     (None, retained_state\<lparr>disk := (disk retained_state)(''fig4_qos.png'' \<mapsto>
        Chart (QosRetain [(CInt 0, 3)] [(''Not Retained'', 2), (''Retained'', 1)]))\<rparr>)"
    by (simp only: k n)
  with q g c r show ?thesis by blast
qed

text \<open>
  As the specification states it, the property fails on a table in which every record is
  retained: retained records outnumber the others, yet the pie call raises on its single
  wedge, so there is no wedge labelled \<open>Retained\<close>, no fourth figure and no document.
\<close>

theorem all_retained_no_pie_counterexample:
  "getitem all_retained_table ''retain'' = Inr [CBool True, CBool True, CBool True] \<and>
   count_list [CBool True, CBool True, CBool True] (CBool False) <
     count_list [CBool True, CBool True, CBool True] (CBool True) \<and>
   console (snd (main quiet (start (csv_only all_retained_table)))) =
     [LoadingData, GeneratingCharts,
      ErrorProcessingData (ValueError ''label must be of length x'')] \<and>
   disk (snd (main quiet (start (csv_only all_retained_table)))) ''fig4_qos.png'' = None \<and>
   disk (snd (main quiet (start (csv_only all_retained_table)))) OUTPUT_PDF = None"
proof -
  let ?s = "start (csv_only all_retained_table)"
  let ?loaded = "?s\<lparr>table := all_retained_table,
      console := console ?s @ [LoadingData, GeneratingCharts]\<rparr>"
  have d: "disk ?s CSV_FILE = Some (Tabular all_retained_table)"
    by (simp add: start_def csv_only_def)
  have g: "generate_charts quiet ?loaded =
    (Some (ValueError ''label must be of length x''),
     ?loaded\<lparr>disk := (disk ?s)
        (''fig1_code.png'' \<mapsto> Chart CodeFigure,
         ''fig2_broker.png'' \<mapsto> Chart (BrokerBars [(CStr ''A'', 2), (CStr ''B'', 1)]),
         ''fig3_payload.png'' \<mapsto> Chart (PayloadBars
            [(CStr ''A'', [(CStr ''JSON'', 1), (CStr ''Numeric'', 1)]),
             (CStr ''B'', [(CStr ''JSON'', 1), (CStr ''Numeric'', 0)])]))\<rparr>)"
    by (simp add: eval_defs savefig_def quiet_def all_retained_table_def eval_nat_numeral)
  have m: "main quiet ?s =
    (None, ?loaded\<lparr>disk := (disk ?s)
        (''fig1_code.png'' \<mapsto> Chart CodeFigure,
         ''fig2_broker.png'' \<mapsto> Chart (BrokerBars [(CStr ''A'', 2), (CStr ''B'', 1)]),
         ''fig3_payload.png'' \<mapsto> Chart (PayloadBars
            [(CStr ''A'', [(CStr ''JSON'', 1), (CStr ''Numeric'', 1)]),
             (CStr ''B'', [(CStr ''JSON'', 1), (CStr ''Numeric'', 0)])])),
       console := console ?s @ [LoadingData, GeneratingCharts,
         ErrorProcessingData (ValueError ''label must be of length x'')]\<rparr>)"
    by (simp add: main_loaded [OF d] g)
  have i: "disk ?s ''fig4_qos.png'' = None" "disk ?s OUTPUT_PDF = None" "console ?s = []"
    by (simp_all add: start_def csv_only_def CSV_FILE_def OUTPUT_PDF_def)
  have n: "''fig4_qos.png'' \<noteq> OUTPUT_PDF" "OUTPUT_PDF \<noteq> ''fig1_code.png''"
    "OUTPUT_PDF \<noteq> ''fig2_broker.png''" "OUTPUT_PDF \<noteq> ''fig3_payload.png''"
    by (simp_all add: OUTPUT_PDF_def)
  have r: "getitem all_retained_table ''retain'' = Inr [CBool True, CBool True, CBool True]"
    by (simp add: all_retained_table_def getitem_def)
  show ?thesis
    by (simp add: m i n r)
qed

subsection \<open>Failure isolation: the first four figures\<close>

lemma savefig_raised: "fst (savefig env p c s) = Some x \<Longrightarrow> savefig env p c s = (Some x, s)"
  by (auto simp: savefig_def split: option.splits)

lemma figure1_raised: "fst (figure1 env s) = Some x \<Longrightarrow> figure1 env s = (Some x, s)"
  by (simp add: figure1_def savefig_raised)

lemma figure2_raised: "fst (figure2 env s) = Some x \<Longrightarrow> figure2 env s = (Some x, s)"
  by (auto simp: figure2_def raise_def Let_def savefig_raised split: sum.splits)

lemma figure3_raised: "fst (figure3 env s) = Some x \<Longrightarrow> figure3 env s = (Some x, s)"
  by (auto simp: figure3_def raise_def savefig_raised split: sum.splits)

lemma figure4_raised: "fst (figure4 env s) = Some x \<Longrightarrow> figure4 env s = (Some x, s)"
  by (auto simp: figure4_def raise_def Let_def savefig_raised split: sum.splits)

lemma main_after_raise:
  "disk s CSV_FILE = Some (Tabular df) \<Longrightarrow>
   generate_charts env (s\<lparr>table := df, console := console s @ [LoadingData, GeneratingCharts]\<rparr>) =
     (Some x, t) \<Longrightarrow>
   main env s = (None, t\<lparr>console := console t @ [ErrorProcessingData x]\<rparr>)"
  by (simp add: main_loaded)

lemma main_after_charts:
  "disk s CSV_FILE = Some (Tabular df) \<Longrightarrow>
   generate_charts env (s\<lparr>table := df, console := console s @ [LoadingData, GeneratingCharts]\<rparr>) =
     (None, t) \<Longrightarrow>
   main env s = create_pdf env (t\<lparr>console := console t @ [BuildingPDF]\<rparr>)"
  by (simp add: main_loaded)

lemma figure1_ok:
  "render_fault env ''fig1_code.png'' = None \<Longrightarrow>
   figure1 env s = (None, s\<lparr>disk := (disk s)(''fig1_code.png'' \<mapsto> Chart CodeFigure)\<rparr>)"
  by (simp add: figure1_def savefig_ok)

lemma figure2_example:
  "table s = example_table \<Longrightarrow> render_fault env ''fig2_broker.png'' = None \<Longrightarrow>
   figure2 env s =
     (None, s\<lparr>disk := (disk s)(''fig2_broker.png'' \<mapsto>
        Chart (BrokerBars [(CStr ''A'', 2), (CStr ''B'', 1)]))\<rparr>)"
proof -
  assume t: "table s = example_table" and r: "render_fault env ''fig2_broker.png'' = None"
  have g: "getitem (table s) ''broker'' = Inr [CStr ''A'', CStr ''A'', CStr ''B'']"
    by (simp add: t example_table_def getitem_def)
  show ?thesis by (simp add: figure2_ok [OF g r] value_counts_example)
qed

lemma figure3_example:
  "table s = example_table \<Longrightarrow> render_fault env ''fig3_payload.png'' = None \<Longrightarrow>
   figure3 env s =
     (None, s\<lparr>disk := (disk s)(''fig3_payload.png'' \<mapsto> Chart (PayloadBars
        [(CStr ''A'', [(CStr ''JSON'', 1), (CStr ''Numeric'', 1)]),
         (CStr ''B'', [(CStr ''JSON'', 1), (CStr ''Numeric'', 0)])]))\<rparr>)"
  by (simp add: figure3_def plot_variable_def countplot_hue_def categorical_order_def uniq_def
      notna_def savefig_ok example_table_def eval_nat_numeral)

lemma figure3_example_fault:
  "table s = example_table \<Longrightarrow> render_fault env ''fig3_payload.png'' = Some e \<Longrightarrow>
   figure3 env s = (Some e, s)"
  by (simp add: figure3_def plot_variable_def savefig_fault example_table_def)

lemma figure4_example:
  "table s = example_table \<Longrightarrow> render_fault env ''fig4_qos.png'' = None \<Longrightarrow>
   figure4 env s =
     (None, s\<lparr>disk := (disk s)(''fig4_qos.png'' \<mapsto>
        Chart (QosRetain [(CInt 0, 3)] [(''Not Retained'', 2), (''Retained'', 1)]))\<rparr>)"
  by (simp add: figure4_def plot_variable_def getitem_def value_counts_def countplot_def
      categorical_order_def uniq_def notna_def pie_def savefig_ok example_table_def
      eval_nat_numeral)

text \<open>
  C1 (as amended). Only the time chart has a handler of its own: an exception raised
  while it is rendered is caught there and printed as a warning. An exception raised by
  one of the first four figures is not caught in the renderer: the renderer stops in the
  state the earlier figures left, so no later figure is attempted, and it raises that
  exception. The handler of the main block then catches it, prints one error line, skips
  the document assembly, and the run ends without an unhandled exception. When the first
  four figures render, the renderer is the time chart run after them and the document
  assembly follows.
\<close>

theorem only_time_chart_guarded:
  assumes "disk s CSV_FILE = Some (Tabular df)"
    and "s0 = s\<lparr>table := df, console := console s @ [LoadingData, GeneratingCharts]\<rparr>"
    and "a1 = snd (figure1 env s0)" and "a2 = snd (figure2 env a1)"
    and "a3 = snd (figure3 env a2)" and "a4 = snd (figure4 env a3)"
  shows "fst (figure5 env s1) = None \<and>
     (fst (figure5_try env s1) = Some e \<longrightarrow>
        figure5 env s1 =
          (None, (snd (figure5_try env s1))
             \<lparr>console := console (snd (figure5_try env s1)) @ [WarnTimeChart e]\<rparr>)) \<and>
     (fst (figure1 env s0) = Some x \<longrightarrow> generate_charts env s0 = (Some x, s0)) \<and>
     (fst (figure1 env s0) = None \<and> fst (figure2 env a1) = Some x \<longrightarrow>
        generate_charts env s0 = (Some x, a1)) \<and>
     (fst (figure1 env s0) = None \<and> fst (figure2 env a1) = None \<and>
      fst (figure3 env a2) = Some x \<longrightarrow>
        generate_charts env s0 = (Some x, a2)) \<and>
     (fst (figure1 env s0) = None \<and> fst (figure2 env a1) = None \<and>
      fst (figure3 env a2) = None \<and> fst (figure4 env a3) = Some x \<longrightarrow>
        generate_charts env s0 = (Some x, a3)) \<and>
     (fst (figure1 env s0) = None \<and> fst (figure2 env a1) = None \<and>
      fst (figure3 env a2) = None \<and> fst (figure4 env a3) = None \<longrightarrow>
        generate_charts env s0 = figure5 env a4) \<and>
     (generate_charts env s0 = (Some x, t) \<longrightarrow>
        main env s = (None, t\<lparr>console := console t @ [ErrorProcessingData x]\<rparr>)) \<and>
     (generate_charts env s0 = (None, t) \<longrightarrow>
        main env s = create_pdf env (t\<lparr>console := console t @ [BuildingPDF]\<rparr>)) \<and>
     fst (main env s) = None"
proof -
  have c5: "fst (figure5 env s1) = None" by (rule figure5_returns)
  have w5: "fst (figure5_try env s1) = Some e \<longrightarrow>
        figure5 env s1 =
          (None, (snd (figure5_try env s1))
             \<lparr>console := console (snd (figure5_try env s1)) @ [WarnTimeChart e]\<rparr>)"
    by (simp add: figure5_caught)
  have r1: "generate_charts env s0 = (Some x, s0)" if "fst (figure1 env s0) = Some x"
    using that figure1_raised [OF that] by (simp add: generate_charts_def seq_Some)
  have r2: "generate_charts env s0 = (Some x, a1)"
    if "fst (figure1 env s0) = None" "fst (figure2 env a1) = Some x"
    using that figure2_raised [OF that(2)] assms(3)
    by (simp add: generate_charts_def seq_None seq_Some)
  have r3: "generate_charts env s0 = (Some x, a2)"
    if "fst (figure1 env s0) = None" "fst (figure2 env a1) = None" "fst (figure3 env a2) = Some x"
    using that figure3_raised [OF that(3)] assms(3,4)
    by (simp add: generate_charts_def seq_None seq_Some)
  have r4: "generate_charts env s0 = (Some x, a3)"
    if "fst (figure1 env s0) = None" "fst (figure2 env a1) = None" "fst (figure3 env a2) = None"
      "fst (figure4 env a3) = Some x"
    using that figure4_raised [OF that(4)] assms(3,4,5)
    by (simp add: generate_charts_def seq_None seq_Some)
  have r5: "generate_charts env s0 = figure5 env a4"
    if "fst (figure1 env s0) = None" "fst (figure2 env a1) = None" "fst (figure3 env a2) = None"
      "fst (figure4 env a3) = None"
    using that assms(3,4,5,6)
    by (simp add: generate_charts_def seq_None)
  have m1: "main env s = (None, t\<lparr>console := console t @ [ErrorProcessingData x]\<rparr>)"
    if "generate_charts env s0 = (Some x, t)"
    using that assms(1,2) by (simp add: main_after_raise)
  have m2: "main env s = create_pdf env (t\<lparr>console := console t @ [BuildingPDF]\<rparr>)"
    if "generate_charts env s0 = (None, t)"
    using that assms(1,2) by (simp add: main_after_charts)
  have m3: "fst (main env s) = None" by (rule main_returns)
  from c5 w5 r1 r2 r3 r4 r5 m1 m2 m3 show ?thesis by blast
qed

theorem only_time_chart_guarded_witness:
  "disk (start (csv_only example_table)) CSV_FILE = Some (Tabular example_table) \<and>
   console (snd (main payload_fault (start (csv_only example_table)))) =
     [LoadingData, GeneratingCharts, ErrorProcessingData (OtherError ''savefig'')] \<and>
   disk (snd (main payload_fault (start (csv_only example_table)))) ''fig2_broker.png'' =
     Some (Chart (BrokerBars [(CStr ''A'', 2), (CStr ''B'', 1)])) \<and>
   disk (snd (main payload_fault (start (csv_only example_table)))) ''fig3_payload.png'' = None \<and>
   disk (snd (main payload_fault (start (csv_only example_table)))) ''fig4_qos.png'' = None \<and>
   disk (snd (main payload_fault (start (csv_only example_table)))) ''fig5_time.png'' = None \<and>
   disk (snd (main payload_fault (start (csv_only example_table)))) OUTPUT_PDF = None \<and>
   table (snd (main payload_fault (start (csv_only example_table)))) = example_table \<and>
   console (snd (main time_fault (start (csv_only example_table)))) =
     [LoadingData, GeneratingCharts, WarnTimeChart (OtherError ''savefig''), BuildingPDF,
      ImageNotFound ''fig5_time.png'', Success OUTPUT_PDF, UploadHint] \<and>
   disk (snd (main time_fault (start (csv_only example_table)))) ''fig5_time.png'' = None"
proof -
  let ?s = "start (csv_only example_table)"
  let ?loaded = "?s\<lparr>table := example_table, console := console ?s @ [LoadingData, GeneratingCharts]\<rparr>"
  have d: "disk ?s CSV_FILE = Some (Tabular example_table)"
    by (simp add: start_def csv_only_def)
  have i: "disk ?s = csv_only example_table" "console ?s = []"
    by (simp_all add: start_def)
  have n: "disk ?s ''fig3_payload.png'' = None" "disk ?s ''fig4_qos.png'' = None"
    "disk ?s ''fig5_time.png'' = None" "disk ?s OUTPUT_PDF = None"
    by (simp_all add: start_def csv_only_def CSV_FILE_def OUTPUT_PDF_def)
  have o: "OUTPUT_PDF \<noteq> ''fig1_code.png''" "OUTPUT_PDF \<noteq> ''fig2_broker.png''"
    "''fig5_time.png'' \<noteq> OUTPUT_PDF"
    by (simp_all add: OUTPUT_PDF_def)
  have t: "table ?loaded = example_table" by simp

  let ?p1 = "snd (figure1 payload_fault ?loaded)"
  let ?p2 = "snd (figure2 payload_fault ?p1)"
  have pq: "render_fault payload_fault ''fig1_code.png'' = None"
    "render_fault payload_fault ''fig2_broker.png'' = None"
    and pr: "render_fault payload_fault ''fig3_payload.png'' = Some (OtherError ''savefig'')"
    by (simp_all add: payload_fault_def quiet_def)
  note p1 = figure1_ok [OF pq(1)]
  have pt1: "table ?p1 = example_table" by (simp add: p1)
  note p2 = figure2_example [OF pt1 pq(2)]
  have pt2: "table ?p2 = example_table" by (simp add: p2 pt1)
  note p3 = figure3_example_fault [OF pt2 pr]
  note pth = only_time_chart_guarded [OF d refl refl refl refl refl,
      where env = payload_fault and x = "OtherError ''savefig''" and t = ?p2]
  have pg: "generate_charts payload_fault ?loaded = (Some (OtherError ''savefig''), ?p2)"
  proof -
    have "fst (figure1 payload_fault ?loaded) = None" by (simp add: p1)
    moreover have "fst (figure2 payload_fault ?p1) = None" by (simp add: p2)
    moreover have "fst (figure3 payload_fault ?p2) = Some (OtherError ''savefig'')"
      by (simp add: p3)
    ultimately show ?thesis using pth by blast
  qed
  with pth have pm: "main payload_fault ?s =
      (None, ?p2\<lparr>console := console ?p2 @ [ErrorProcessingData (OtherError ''savefig'')]\<rparr>)"
    by blast
  note gp = figure2_example [OF _ pq(2)]
  have pc: "console ?p2 = [LoadingData, GeneratingCharts]"
    by (simp add: gp p1 i)
  have pd: "disk ?p2 ''fig2_broker.png'' = Some (Chart (BrokerBars [(CStr ''A'', 2), (CStr ''B'', 1)]))"
    "disk ?p2 ''fig3_payload.png'' = None" "disk ?p2 ''fig4_qos.png'' = None"
    "disk ?p2 ''fig5_time.png'' = None" "disk ?p2 OUTPUT_PDF = None"
    by (simp_all add: gp p1 n o)
  have px: "console (snd (main payload_fault ?s)) =
     [LoadingData, GeneratingCharts, ErrorProcessingData (OtherError ''savefig'')]"
    "disk (snd (main payload_fault ?s)) ''fig2_broker.png'' =
       Some (Chart (BrokerBars [(CStr ''A'', 2), (CStr ''B'', 1)]))"
    "disk (snd (main payload_fault ?s)) ''fig3_payload.png'' = None"
    "disk (snd (main payload_fault ?s)) ''fig4_qos.png'' = None"
    "disk (snd (main payload_fault ?s)) ''fig5_time.png'' = None"
    "disk (snd (main payload_fault ?s)) OUTPUT_PDF = None"
    "table (snd (main payload_fault ?s)) = example_table"
    by (simp_all add: pm pc pd pt2)

  let ?t1 = "snd (figure1 time_fault ?loaded)"
  let ?t2 = "snd (figure2 time_fault ?t1)"
  let ?t3 = "snd (figure3 time_fault ?t2)"
  let ?t4 = "snd (figure4 time_fault ?t3)"
  let ?t5 = "snd (figure5_try time_fault ?t4)"
  let ?built = "?t5\<lparr>console := console ?t5 @ [WarnTimeChart (OtherError ''savefig''), BuildingPDF]\<rparr>"
  have q: "render_fault time_fault ''fig1_code.png'' = None"
    "render_fault time_fault ''fig2_broker.png'' = None"
    "render_fault time_fault ''fig3_payload.png'' = None"
    "render_fault time_fault ''fig4_qos.png'' = None"
    and r: "render_fault time_fault ''fig5_time.png'' = Some (OtherError ''savefig'')"
    and w: "output_fault time_fault OUTPUT_PDF = None"
    and m: "embed_fault time_fault p = None" for p
    by (simp_all add: time_fault_def quiet_def)
  note e1 = figure1_ok [OF q(1)]
  have tt1: "table ?t1 = example_table" by (simp add: e1)
  note e2 = figure2_example [OF tt1 q(2)]
  have tt2: "table ?t2 = example_table" by (simp add: e2 tt1)
  note e3 = figure3_example [OF tt2 q(3)]
  have tt3: "table ?t3 = example_table" by (simp add: e3 tt2)
  note e4 = figure4_example [OF tt3 q(4)]
  have tt4: "table ?t4 = example_table" by (simp add: e4 tt3)
  note e5 = figure5_try_example_fault [OF tt4 r]
  note tth = only_time_chart_guarded [OF d refl refl refl refl refl,
      where env = time_fault and ?s1.0 = ?t4 and e = "OtherError ''savefig''" and t = ?built]
  have f5: "figure5 time_fault ?t4 =
      (None, ?t5\<lparr>console := console ?t5 @ [WarnTimeChart (OtherError ''savefig'')]\<rparr>)"
  proof -
    have "fst (figure5_try time_fault ?t4) = Some (OtherError ''savefig'')"
      by (simp add: e5)
    with tth show ?thesis by blast
  qed
  have tg: "generate_charts time_fault ?loaded = figure5 time_fault ?t4"
  proof -
    have "fst (figure1 time_fault ?loaded) = None" by (simp add: e1)
    moreover have "fst (figure2 time_fault ?t1) = None" by (simp add: e2)
    moreover have "fst (figure3 time_fault ?t2) = None" by (simp add: e3)
    moreover have "fst (figure4 time_fault ?t3) = None" by (simp add: e4)
    ultimately show ?thesis using tth by blast
  qed
  note tth2 = only_time_chart_guarded [OF d refl refl refl refl refl,
      where env = time_fault
        and t = "?t5\<lparr>console := console ?t5 @ [WarnTimeChart (OtherError ''savefig'')]\<rparr>"]
  have tm: "main time_fault ?s = create_pdf time_fault ?built"
  proof -
    have "generate_charts time_fault ?loaded =
        (None, ?t5\<lparr>console := console ?t5 @ [WarnTimeChart (OtherError ''savefig'')]\<rparr>)"
      by (simp only: tg f5)
    with tth2 have "main time_fault ?s =
        create_pdf time_fault
          ((?t5\<lparr>console := console ?t5 @ [WarnTimeChart (OtherError ''savefig'')]\<rparr>)
             \<lparr>console := console (?t5\<lparr>console := console ?t5 @
                [WarnTimeChart (OtherError ''savefig'')]\<rparr>) @ [BuildingPDF]\<rparr>)"
      by blast
    then show ?thesis by simp
  qed
  note ge = figure2_example [OF _ q(2)] figure3_example [OF _ q(3)] figure4_example [OF _ q(4)]
    figure5_try_example_fault [OF _ r]
  have td: "disk ?t5 ''fig1_code.png'' \<noteq> None" "disk ?t5 ''fig2_broker.png'' \<noteq> None"
    "disk ?t5 ''fig3_payload.png'' \<noteq> None" "disk ?t5 ''fig4_qos.png'' \<noteq> None"
    "disk ?t5 ''fig5_time.png'' = None"
    by (simp_all add: ge e1 n)
  have tc: "console ?t5 = [LoadingData, GeneratingCharts]"
    by (simp add: ge e1 i)
  have tx: "console (snd (create_pdf time_fault ?built)) =
     [LoadingData, GeneratingCharts, WarnTimeChart (OtherError ''savefig''), BuildingPDF,
      ImageNotFound ''fig5_time.png'', Success OUTPUT_PDF, UploadHint]"
    using td by (simp add: create_pdf_eq w console_assemble exists_def m tc)
  have ty: "disk (snd (create_pdf time_fault ?built)) ''fig5_time.png'' = None"
    using td(5) o(3) by (simp add: create_pdf_eq w disk_assemble)
  from d px tx ty show ?thesis by (simp only: tm simp_thms)
qed

text \<open>
  As the specification states it, the property fails on a table without a broker column:
  the second figure raises, the third, fourth and fifth are never attempted, and no
  document is built.
\<close>

theorem chart_failure_aborts_run_counterexample:
  "main quiet (start (csv_only no_broker_table)) =
     (None, \<lparr>table = no_broker_table, pdf = [],
        disk = (csv_only no_broker_table)(''fig1_code.png'' \<mapsto> Chart CodeFigure),
        console = [LoadingData, GeneratingCharts, ErrorProcessingData (KeyError ''broker'')]\<rparr>)"
proof -
  let ?s = "start (csv_only no_broker_table)"
  have d: "disk ?s CSV_FILE = Some (Tabular no_broker_table)"
    by (simp add: start_def csv_only_def)
  have g: "generate_charts quiet
      (?s\<lparr>table := no_broker_table, console := console ?s @ [LoadingData, GeneratingCharts]\<rparr>) =
    (Some (KeyError ''broker''),
     ?s\<lparr>table := no_broker_table, console := console ?s @ [LoadingData, GeneratingCharts],
        disk := (disk ?s)(''fig1_code.png'' \<mapsto> Chart CodeFigure)\<rparr>)"
    by (simp add: generate_charts_def figure1_def figure2_def seq_def savefig_def raise_def
        getitem_def quiet_def no_broker_table_def)
  show ?thesis
    by (simp add: main_loaded [OF d] g) (simp add: start_def)
qed

end
